theory Spec2Isabelle
  imports Complex_Main "HOL-Library.Sublist"
begin

section \<open>JavaScript values and strings\<close>

text \<open>
  The program is \<^verbatim>\<open>src/script.js\<close>. The file holds two revisions of the page script, one
  after the other; the second one (from line 639 on) adds the highlight of the selected
  feature and the multi-field search, and it is the one embedded here.

  A JavaScript string is a sequence of UTF-16 code units. The model covers the strings
  whose code units are below 256 (Latin-1, which holds the Spanish text of the page), one
  \<^typ>\<open>char\<close> per code unit. Property values are the values a GeoJSON property bag can
  hold; \<open>JObj\<close> stands for an object or an array, named by its identity, and
  \<open>JGeometry\<close> for a geometry of the mapping library, of which the script reads the type
  only.
\<close>

datatype geometry_type =
    Point | LineString | LinearRing | Polygon | MultiPoint | MultiLineString | MultiPolygon
  | GeometryCollection | Circle

datatype jsval =
    JUndefined | JNull | JBool bool | JNum int | JStr string | JObj nat
  | JGeometry geometry_type

datatype error = TypeError

fun truthy :: "jsval \<Rightarrow> bool" where
  "truthy JUndefined = False"
| "truthy JNull = False"
| "truthy (JBool b) = b"
| "truthy (JNum n) = (n \<noteq> 0)"
| "truthy (JStr s) = (s \<noteq> [])"
| "truthy (JObj _) = True"
| "truthy (JGeometry _) = True"

text \<open>The operator \<^verbatim>\<open>a || b\<close> on values: the left operand when it is truthy.\<close>

definition js_or :: "jsval \<Rightarrow> jsval \<Rightarrow> jsval" where
  "js_or a b = (if truthy a then a else b)"

definition lowerChar :: "char \<Rightarrow> char" where
  "lowerChar c =
     (let n = (of_char c :: nat)
      in if (65 \<le> n \<and> n \<le> 90) \<or> (192 \<le> n \<and> n \<le> 222 \<and> n \<noteq> 215)
         then char_of (n + 32) else c)"

definition toLowerCase :: "string \<Rightarrow> string" where
  "toLowerCase s = map lowerChar s"

definition upperChar :: "char \<Rightarrow> char" where
  "upperChar c =
     (let n = (of_char c :: nat)
      in if 97 \<le> n \<and> n \<le> 122 then char_of (n - 32) else c)"

text \<open>\<^verbatim>\<open>s.includes(t)\<close>: \<open>t\<close> occurs in \<open>s\<close> as a contiguous run.\<close>

fun includesStr :: "string \<Rightarrow> string \<Rightarrow> bool" where
  "includesStr [] t = (t = [])"
| "includesStr (c # cs) t = (prefix t (c # cs) \<or> includesStr cs t)"

text \<open>\<^verbatim>\<open>s.startsWith(t)\<close>.\<close>

definition startsWith :: "string \<Rightarrow> string \<Rightarrow> bool" where
  "startsWith s t = prefix t s"

text \<open>\<^verbatim>\<open>s.trim()\<close>: the white space of Latin-1 is removed at both ends.\<close>

definition isSpace :: "char \<Rightarrow> bool" where
  "isSpace c = ((of_char c :: nat) \<in> {9, 10, 11, 12, 13, 32, 160})"

definition trim :: "string \<Rightarrow> string" where
  "trim s = rev (dropWhile isSpace (rev (dropWhile isSpace s)))"

section \<open>Features\<close>

text \<open>
  A feature is an object of the mapping library: it has an identity (\<open>fid\<close>) and a
  property bag, listed in the order \<^verbatim>\<open>for (const key in properties)\<close> visits it. The
  geometry is the property \<^verbatim>\<open>geometry\<close> of the bag, as \<^verbatim>\<open>getProperties()\<close> returns it.
\<close>

record feature =
  fid :: nat
  properties :: "(string \<times> jsval) list"

definition lookup :: "(string \<times> jsval) list \<Rightarrow> string \<Rightarrow> jsval" where
  "lookup ps k = (case map_of ps k of None \<Rightarrow> JUndefined | Some v \<Rightarrow> v)"

definition get :: "feature \<Rightarrow> string \<Rightarrow> jsval" where
  "get f k = lookup (properties f) k"

definition getGeometry :: "feature \<Rightarrow> jsval" where
  "getGeometry f = get f ''geometry''"

definition key_ubicacion :: string where
  "key_ubicacion = ''ubicaci'' @ [CHR 0xF3] @ ''n''"

definition key_Direccion :: string where
  "key_Direccion = ''Direcci'' @ [CHR 0xF3] @ ''n''"

section \<open>The matching predicates\<close>

text \<open>
  \<^verbatim>\<open>v && v.toLowerCase().includes(term)\<close>: a falsy \<open>v\<close> does not match, a string is
  searched, and any other truthy value has no method \<^verbatim>\<open>toLowerCase\<close>, which raises.
\<close>

definition fieldIncludes :: "jsval \<Rightarrow> string \<Rightarrow> error + bool" where
  "fieldIncludes v term =
     (if \<not> truthy v then Inr False
      else case v of JStr s \<Rightarrow> Inr (includesStr (toLowerCase s) term) | _ \<Rightarrow> Inl TypeError)"

text \<open>A chain \<^verbatim>\<open>a || b || ...\<close>, evaluated from the left up to the first true operand.\<close>

fun orChain :: "(error + bool) list \<Rightarrow> error + bool" where
  "orChain [] = Inr False"
| "orChain (Inl e # rest) = Inl e"
| "orChain (Inr True # rest) = Inr True"
| "orChain (Inr False # rest) = orChain rest"

text \<open>The fields \<^verbatim>\<open>performSearch\<close> reads (lines 1192 to 1197) and its condition.\<close>

definition searchFields :: "feature \<Rightarrow> jsval list" where
  "searchFields f =
     [js_or (get f ''name'') (get f ''nombre''),
      js_or (get f ''location'') (get f key_ubicacion),
      js_or (get f ''address'') (get f key_Direccion),
      get f ''comuna'',
      get f ''Empresa'',
      js_or (get f ''operator'') (get f ''operador'')]"

definition searchMatches :: "feature \<Rightarrow> string \<Rightarrow> error + bool" where
  "searchMatches f lowerSearchTerm =
     orChain (map (\<lambda>v. fieldIncludes v lowerSearchTerm) (searchFields f))"

text \<open>The fields the suggestion filter reads (lines 1294 to 1300) and its condition.\<close>

definition suggestFields :: "feature \<Rightarrow> jsval list" where
  "suggestFields f =
     [js_or (get f ''name'') (get f ''nombre''),
      get f ''type'',
      js_or (get f ''location'') (get f key_ubicacion),
      js_or (get f ''address'') (get f key_Direccion),
      get f ''comuna'',
      get f ''Empresa'',
      js_or (get f ''operator'') (get f ''operador'')]"

definition suggestMatches :: "feature \<Rightarrow> string \<Rightarrow> error + bool" where
  "suggestMatches f searchTerm =
     orChain (map (\<lambda>v. fieldIncludes v searchTerm) (suggestFields f))"

section \<open>The Formatter\<close>

text \<open>
  \<^verbatim>\<open>getFormattedFeatureInfo\<close> (lines 1016 to 1044) builds an HTML string by appending one
  template per statement \<^verbatim>\<open>content += ...\<close>. The model returns the list of the appended
  pieces, one constructor per template, holding the values the template interpolates:
  the heading, the subtitle, an image (source and alternative text), a reference link
  (label and target) and a label/value line. The keys of a feature are expected to differ
  from one another and from \<^verbatim>\<open>hasOwnProperty\<close>, the method the loop calls on the bag.
\<close>

datatype fragment =
    Heading jsval
  | Subtitle jsval
  | ImageItem jsval jsval
  | LinkItem string jsval
  | InfoItem string jsval

definition translationDict :: "(string \<times> string) list" where
  "translationDict =
     [(''name'', ''Nombre''),
      (''type'', ''Tipo''),
      (''empresa'', ''Empresa''),
      (''shape'', ''Forma''),
      (''color'', ''Color''),
      (''size'', ''Tama'' @ [CHR 0xF1] @ ''o''),
      (''address'', ''Direcci'' @ [CHR 0xF3] @ ''n''),
      (''pue'', ''Eficiencia Energ'' @ [CHR 0xE9] @ ''tica (PUE)''),
      (''wue'', ''Eficiencia H'' @ [CHR 0xED] @ ''drica (WUE)''),
      (''dimensiones'', ''Dimensiones F'' @ [CHR 0xED] @ ''sicas''),
      (''tecnologias'', ''Tecnolog'' @ [CHR 0xED] @ ''as Empleadas''),
      (''sistemas_refrigeracion'', ''Sistemas de Refrigeraci'' @ [CHR 0xF3] @ ''n''),
      (''consumo_agua'', ''Consumo de Agua''),
      (''uso_suelo'', ''Uso de Suelo''),
      (''emisiones'', ''Datos sobre Emisiones''),
      (''source'', ''Fuente''),
      (''reference_link'', ''Enlace de Referencia''),
      (''length_km'', ''Longitud (km)''),
      (''image'', ''Imagen''),
      (''width'', ''Ancho''),
      (''a'' @ [CHR 0xF1] @ ''o'', ''A'' @ [CHR 0xF1] @ ''o''),
      (''consultora'', ''Consultora''),
      (''superficie_predial'', ''Superficie Predial''),
      (''superficie_construida'', ''Superficie Construida''),
      (''inversion'', ''Inversi'' @ [CHR 0xF3] @ ''n''),
      (''tipo_de_refrigeracion'', ''Tipo de Refrigeraci'' @ [CHR 0xF3] @ ''n''),
      (''evaluacion_ambiental'', ''Evaluaci'' @ [CHR 0xF3] @ ''n Ambiental''),
      (''comuna'', ''Comuna'')]"

definition excludedKeys :: "string list" where
  "excludedKeys =
     [''name'', ''type'', ''shape'', ''color'', ''size'', ''opacity'', ''geometry'', ''width'',
      ''lineDash'', ''id'']"

text \<open>
  \<^verbatim>\<open>key.replace(/_/g, ' ').replace(/\b\w/g, c => c.toUpperCase())\<close>: every underscore
  becomes a space, then every word character that follows a non-word character (or starts
  the string) is put in upper case. The flag of \<open>capitalizeWords\<close> says whether the
  previous character was a word character.
\<close>

definition replaceUnderscores :: "string \<Rightarrow> string" where
  "replaceUnderscores s = map (\<lambda>c. if c = CHR ''_'' then CHR '' '' else c) s"

definition isWordChar :: "char \<Rightarrow> bool" where
  "isWordChar c =
     (let n = (of_char c :: nat)
      in (48 \<le> n \<and> n \<le> 57) \<or> (65 \<le> n \<and> n \<le> 90) \<or> n = 95 \<or> (97 \<le> n \<and> n \<le> 122))"

fun capitalizeWords :: "bool \<Rightarrow> string \<Rightarrow> string" where
  "capitalizeWords prev [] = []"
| "capitalizeWords prev (c # cs) =
     (if isWordChar c \<and> \<not> prev then upperChar c else c) # capitalizeWords (isWordChar c) cs"

text \<open>
  \<^verbatim>\<open>translationDict[lowercaseKey]\<close> also finds the two names in lower case that the
  object inherits from \<^verbatim>\<open>Object.prototype\<close>: \<^verbatim>\<open>constructor\<close> and \<^verbatim>\<open>__proto__\<close>. Both
  values are truthy, so they become the label, as the template prints them: the text of
  the function \<^verbatim>\<open>Object\<close> (given here as V8 and JavaScriptCore print it; the white
  space in it is the engine's) and the text of an object.
\<close>

definition inheritedNames :: "(string \<times> string) list" where
  "inheritedNames =
     [(''constructor'', ''function Object() { [native code] }''),
      (''__proto__'', ''[object Object]'')]"

definition translateKey :: "string \<Rightarrow> string" where
  "translateKey key =
     (case map_of (translationDict @ inheritedNames) (toLowerCase key) of
        Some label \<Rightarrow> label
      | None \<Rightarrow> capitalizeWords False (replaceUnderscores key))"

definition isHttpString :: "jsval \<Rightarrow> bool" where
  "isHttpString v = (case v of JStr s \<Rightarrow> startsWith s ''http'' | _ \<Rightarrow> False)"

text \<open>The body of the loop over the keys of the property bag, for one key.\<close>

definition formatProperty :: "(string \<times> jsval) list \<Rightarrow> jsval \<Rightarrow> string \<Rightarrow> fragment list" where
  "formatProperty props name key =
     (let lowercaseKey = toLowerCase key in
      if lowercaseKey \<notin> set excludedKeys \<and> truthy (lookup props key) then
        (let translatedKey = translateKey key;
             v = lookup props key
         in if lowercaseKey = ''image'' \<and> truthy v then
              (if isHttpString v then [ImageItem v name] else [])
            else if lowercaseKey = ''reference_link'' \<and> truthy v then
              [LinkItem translatedKey v]
            else
              (if v \<noteq> JNull \<and> v \<noteq> JUndefined \<and> v \<noteq> JStr [] then [InfoItem translatedKey v]
               else []))
      else [])"

definition getFormattedFeatureInfo :: "feature \<Rightarrow> fragment list" where
  "getFormattedFeatureInfo f =
     (let props = properties f;
          name = js_or (lookup props ''name'')
                   (JStr (''Informaci'' @ [CHR 0xF3] @ ''n del Elemento''));
          type = js_or (lookup props ''type'') (JStr ''Elemento'')
      in Heading name # Subtitle type # concat (map (formatProperty props name) (map fst props)))"

section \<open>The map, its layers and the page state\<close>

text \<open>
  The map holds the base tile layer and four vector layers, added in this order (lines 674
  to 686 and 914 to 917). \<^verbatim>\<open>initializeSearchFeatures\<close> visits the vector layers in
  another order (line 1159).
\<close>

datatype vlayer = CableLayer | LandCableLayer | PointLayer | DataCenterLayer

datatype layer = TileLayer | VectorLayer vlayer

datatype source_state = Undefined | Loading | Ready | Failed

record vsource =
  sourceState :: source_state
  sourceFeatures :: "feature list"

definition mapLayers :: "layer list" where
  "mapLayers =
     [TileLayer, VectorLayer CableLayer, VectorLayer LandCableLayer, VectorLayer PointLayer,
      VectorLayer DataCenterLayer]"

definition layersToSearch :: "vlayer list" where
  "layersToSearch = [PointLayer, DataCenterLayer, LandCableLayer, CableLayer]"

text \<open>\<^verbatim>\<open>t && t.toLowerCase() === literal\<close>.\<close>

definition typeIs :: "jsval \<Rightarrow> string \<Rightarrow> error + bool" where
  "typeIs t literal =
     (if \<not> truthy t then Inr False
      else case t of JStr s \<Rightarrow> Inr (toLowerCase s = literal) | _ \<Rightarrow> Inl TypeError)"

text \<open>
  \<^verbatim>\<open>feature.getGeometry().getType()\<close>: only a geometry has the method; on anything
  else, and on a feature without geometry, the call raises.
\<close>

definition getType :: "jsval \<Rightarrow> error + geometry_type" where
  "getType v = (case v of JGeometry t \<Rightarrow> Inr t | _ \<Rightarrow> Inl TypeError)"

text \<open>
  The styles the script builds, by what the script puts in them. \<open>GlowStyle\<close> is the
  constant \<^verbatim>\<open>glowStyle\<close>; \<open>HitAreaStyle\<close> is the wide transparent stroke of the cable
  layer; \<open>StrokeStyle\<close> holds colour, width and dash of a line; \<open>ImageStyle\<close> holds the
  shape, radius and fill of a point symbol (its stroke is constant), and whether the
  symbol is drawn at the interior point of the polygon instead of the geometry itself;
  \<open>OutlineStyle\<close> is the dashed outline of a data centre.
\<close>

datatype image_shape = CircleShape | SquareShape

datatype style =
    GlowStyle
  | HitAreaStyle
  | StrokeStyle jsval jsval jsval
  | ImageStyle image_shape jsval jsval bool
  | OutlineStyle

datatype style_result = SingleStyle style | StyleArray "style list"

text \<open>
  The style functions of the four layers (lines 729 to 912); \<open>zoom\<close> is
  \<^verbatim>\<open>map.getView().getZoom()\<close>, which the data centre layer reads.
\<close>

definition cableStyle :: "feature \<Rightarrow> error + style_result" where
  "cableStyle f =
     Inr (StyleArray
       [HitAreaStyle,
        StrokeStyle (js_or (get f ''color'') (JStr ''rgba(255, 0, 0, 0.7)''))
          (js_or (get f ''width'') (JNum 3)) (js_or (get f ''lineDash'') JUndefined)])"

definition landCableStyle :: "feature \<Rightarrow> error + style_result" where
  "landCableStyle f =
     Inr (SingleStyle
       (StrokeStyle (js_or (get f ''color'') (JStr ''rgba(0, 0, 255, 0.7)''))
          (js_or (get f ''width'') (JNum 3)) (js_or (get f ''lineDash'') JUndefined)))"

definition pointStyle :: "feature \<Rightarrow> error + style_result" where
  "pointStyle f =
     (let shape = get f ''shape'';
          fillColor = js_or (get f ''color'') (JStr ''#FFD700'');
          pointSize = js_or (get f ''size'') (JNum 5)
      in case typeIs shape ''circle'' of
           Inl e \<Rightarrow> Inl e
         | Inr True \<Rightarrow> Inr (SingleStyle (ImageStyle CircleShape pointSize fillColor False))
         | Inr False \<Rightarrow>
             (case typeIs shape ''square'' of
                Inl e \<Rightarrow> Inl e
              | Inr True \<Rightarrow> Inr (SingleStyle (ImageStyle SquareShape pointSize fillColor False))
              | Inr False \<Rightarrow>
                  Inr (SingleStyle (ImageStyle CircleShape pointSize fillColor False))))"

text \<open>
  \<^verbatim>\<open>ol.geom.Polygon.prototype.getInteriorPoint.call(g)\<close> (line 842) runs the method of
  the polygons on the geometry \<open>g\<close>. The method reads the point through
  \<^verbatim>\<open>this.getFlatInteriorPoint()\<close>, which a polygon has and a multi-polygon has not (it
  has \<^verbatim>\<open>getFlatInteriorPoints\<close>): on a multi-polygon the call raises.
\<close>

definition interiorPointCall :: "geometry_type \<Rightarrow> error + unit" where
  "interiorPointCall geometryType = (if geometryType = Polygon then Inr () else Inl TypeError)"

definition dataCenterStyle :: "real \<Rightarrow> feature \<Rightarrow> error + style_result" where
  "dataCenterStyle zoom f =
     (case getType (getGeometry f) of
        Inl e \<Rightarrow> Inl e
      | Inr geometryType \<Rightarrow>
          (let shape = get f ''shape'';
               fillColor = js_or (get f ''color'') (JStr ''#5DADE2'');
               pointSize = js_or (get f ''size'') (JNum 8);
               polygon = (geometryType = Polygon \<or> geometryType = MultiPolygon)
           in case (if polygon then interiorPointCall geometryType else Inr ()) of
                Inl e \<Rightarrow> Inl e
              | Inr _ \<Rightarrow>
                  (case typeIs shape ''circle'' of
                     Inl e \<Rightarrow> Inl e
                   | Inr circle \<Rightarrow>
                       Inr (StyleArray
                         (ImageStyle (if circle then CircleShape else SquareShape) pointSize
                            fillColor polygon #
                          (if polygon \<and> zoom \<ge> 13 then [OutlineStyle] else []))))))"

fun layerStyleFunction :: "real \<Rightarrow> vlayer \<Rightarrow> feature \<Rightarrow> error + style_result" where
  "layerStyleFunction zoom CableLayer f = cableStyle f"
| "layerStyleFunction zoom PointLayer f = pointStyle f"
| "layerStyleFunction zoom DataCenterLayer f = dataCenterStyle zoom f"
| "layerStyleFunction zoom LandCableLayer f = landCableStyle f"

datatype display = DisplayUnset | DisplayBlock | DisplayNone

datatype suggestion = SuggestionItem feature | NoResultsMessage string

record fit_request =
  fitGeometry :: jsval
  fitDuration :: nat
  fitPadding :: "int list"
  fitMaxZoom :: nat

text \<open>
  The state the handlers share: the variables of the script (\<open>selectedFeature\<close>,
  \<open>allFeatures\<close>, \<open>isClickOnFeature\<close>), the sources of the layers, the style set on each
  feature by \<^verbatim>\<open>setStyle\<close> (\<open>None\<close> is \<^verbatim>\<open>undefined\<close>: the feature is drawn with its
  layer's style), the parts of the page the handlers write, the listeners registered by
  \<^verbatim>\<open>map.once('moveend', ...)\<close> (each with the layer its closure holds), the calls of
  \<^verbatim>\<open>view.fit\<close> and \<^verbatim>\<open>alert\<close>, the exceptions that left a handler, the layout the
  browser reports and the zoom of the view.
\<close>

record state =
  sources :: "vlayer \<Rightarrow> vsource"
  allFeatures :: "feature list"
  selectedFeature :: "feature option"
  featureStyle :: "nat \<Rightarrow> style list option"
  isClickOnFeature :: bool
  panelContent :: "fragment list"
  infoPanelOpen :: bool
  layerControlsOpen :: bool
  toggleButtonDisplay :: display
  searchBoxValue :: string
  suggestionsList :: "suggestion list"
  suggestionsDisplay :: display
  moveendOnce :: "vlayer list"
  fitRequests :: "fit_request list"
  alerts :: "string list"
  uncaught :: "error list"
  innerWidth :: int
  infoPanelOffsetHeight :: int
  infoPanelOffsetWidth :: int
  viewZoom :: real

text \<open>
  An exception that leaves a function of the script is appended to \<open>uncaught\<close>, and
  nothing else appends to it: \<open>raised s s'\<close> says that the call that led from \<open>s\<close> to
  \<open>s'\<close> raised, so that its caller is left too.
\<close>

definition raised :: "state \<Rightarrow> state \<Rightarrow> bool" where
  "raised s s' = (length (uncaught s) < length (uncaught s'))"

section \<open>The Feature Store\<close>

text \<open>
  \<^verbatim>\<open>initializeSearchFeatures\<close> (lines 1158 to 1173) registers one listener per layer of
  \<open>layersToSearch\<close> for the \<^verbatim>\<open>change\<close> event of the layer's source, and then reads the
  source once. \<open>sourceChange l\<close> is the listener of layer \<open>l\<close>; \<open>initializeSearchFeatures\<close>
  is the pass made when the page starts.
\<close>

definition pushFeatures :: "vlayer \<Rightarrow> state \<Rightarrow> state" where
  "pushFeatures l s =
     (if sourceState (sources s l) = Ready
      then s\<lparr>allFeatures := allFeatures s @ sourceFeatures (sources s l)\<rparr>
      else s)"

definition sourceChange :: "vlayer \<Rightarrow> state \<Rightarrow> state" where
  "sourceChange l s = pushFeatures l s"

definition initializeSearchFeatures :: "state \<Rightarrow> state" where
  "initializeSearchFeatures s = foldl (\<lambda>s' l. pushFeatures l s') s layersToSearch"

text \<open>
  \<^verbatim>\<open>feature.setStyle(style)\<close> is the library's: it stores the style on the feature and
  signals the change of the feature, and every source that holds the feature passes the
  signal on as its own \<^verbatim>\<open>change\<close> event. So the listeners above run inside the call, for
  the sources that hold the feature. On the page every source is read from a file of its
  own and a feature has one source; a feature held by several sources is taken to notify
  them in the order of \<open>layersToSearch\<close>.
\<close>

definition owners :: "(vlayer \<Rightarrow> vsource) \<Rightarrow> feature \<Rightarrow> vlayer list" where
  "owners srcs f = filter (\<lambda>l. fid f \<in> fid ` set (sourceFeatures (srcs l))) layersToSearch"

definition setStyle :: "feature \<Rightarrow> style list option \<Rightarrow> state \<Rightarrow> state" where
  "setStyle f st s =
     foldl (\<lambda>s' l. sourceChange l s') (s\<lparr>featureStyle := (featureStyle s)(fid f := st)\<rparr>)
       (owners (sources s) f)"

section \<open>Selection and highlight\<close>

definition resetFeatureStyle :: "state \<Rightarrow> state" where
  "resetFeatureStyle s =
     (case selectedFeature s of
        None \<Rightarrow> s
      | Some f \<Rightarrow> (setStyle f None s)\<lparr>selectedFeature := None\<rparr>)"

text \<open>The maximal zoom of the map click handler (lines 1104 to 1111).\<close>

definition clickMaxZoom :: "feature \<Rightarrow> error + nat" where
  "clickMaxZoom f =
     (let featureType = get f ''type'' in
      case typeIs featureType ''data center'' of
        Inl e \<Rightarrow> Inl e
      | Inr True \<Rightarrow> Inr 15
      | Inr False \<Rightarrow>
          (case typeIs featureType ''punto de aterrizaje'' of
             Inl e \<Rightarrow> Inl e
           | Inr True \<Rightarrow> Inr 13
           | Inr False \<Rightarrow> Inr 16))"

text \<open>The maximal zoom of \<^verbatim>\<open>performSearch\<close> (lines 1236 to 1243).\<close>

definition searchMaxZoom :: "feature \<Rightarrow> error + nat" where
  "searchMaxZoom f =
     (let featureType = get f ''type'' in
      case typeIs featureType ''punto de aterrizaje'' of
        Inl e \<Rightarrow> Inl e
      | Inr True \<Rightarrow> Inr 13
      | Inr False \<Rightarrow>
          (case typeIs featureType ''data center'' of
             Inl e \<Rightarrow> Inl e
           | Inr True \<Rightarrow> Inr 15
           | Inr False \<Rightarrow> Inr 14))"

definition computeFitPadding :: "state \<Rightarrow> int list" where
  "computeFitPadding s =
     (if innerWidth s \<le> 768 then [50, 50, infoPanelOffsetHeight s + 20, 50]
      else [50, infoPanelOffsetWidth s + 20, 50, 50])"

text \<open>
  What both selection paths do once the feature is stored: the panel is filled and opened,
  the layer controls are closed.
\<close>

definition closeLayerControls :: "state \<Rightarrow> state" where
  "closeLayerControls s =
     (if layerControlsOpen s then
        (if innerWidth s \<le> 768
         then s\<lparr>layerControlsOpen := False, toggleButtonDisplay := DisplayBlock\<rparr>
         else s\<lparr>layerControlsOpen := False\<rparr>)
      else s)"

definition openPanel :: "feature \<Rightarrow> state \<Rightarrow> state" where
  "openPanel f s =
     closeLayerControls
       (s\<lparr>selectedFeature := Some f, isClickOnFeature := True,
          panelContent := getFormattedFeatureInfo f, infoPanelOpen := True\<rparr>)"

text \<open>
  The end of both selection paths: when the feature has a geometry, the maximal zoom is
  computed (\<open>zoom\<close> is \<open>clickMaxZoom\<close> or \<open>searchMaxZoom\<close>), the continuation is
  registered for the next \<^verbatim>\<open>moveend\<close> and the camera fit is requested.
\<close>

definition requestFit :: "(feature \<Rightarrow> error + nat) \<Rightarrow> feature \<Rightarrow> vlayer \<Rightarrow> state \<Rightarrow> state" where
  "requestFit zoom f l s =
     (if truthy (getGeometry f) then
        (case zoom f of
           Inl e \<Rightarrow> s\<lparr>uncaught := uncaught s @ [e]\<rparr>
         | Inr z \<Rightarrow>
             s\<lparr>moveendOnce := moveendOnce s @ [l],
               fitRequests := fitRequests s @
                 [\<lparr>fitGeometry = getGeometry f, fitDuration = 700,
                   fitPadding = computeFitPadding s, fitMaxZoom = z\<rparr>]\<rparr>)
      else s)"

text \<open>
  The map click handler (lines 1072 to 1150). \<open>hits\<close> are the features under the pixel
  with their layers, in the order \<^verbatim>\<open>forEachFeatureAtPixel\<close> reports them: the callback
  overwrites \<open>clickedFeature\<close> at each one and returns nothing, so the last one stays.
\<close>

definition mapClick :: "(feature \<times> vlayer) list \<Rightarrow> state \<Rightarrow> state" where
  "mapClick hits s =
     (if hits \<noteq> [] then
        (let clickedFeature = fst (last hits); clickedLayer = snd (last hits)
         in requestFit clickMaxZoom clickedFeature clickedLayer
              (openPanel clickedFeature (resetFeatureStyle s)))
      else resetFeatureStyle (s\<lparr>isClickOnFeature := False, infoPanelOpen := False\<rparr>))"

text \<open>
  The continuation registered by \<^verbatim>\<open>map.once('moveend', ...)\<close> (lines 1123 to 1134 and
  1254 to 1265); \<open>l\<close> is the layer its closure holds. When the style function of that
  layer raises, the continuation is left before \<^verbatim>\<open>setStyle\<close>.
\<close>

definition toArray :: "style_result \<Rightarrow> style list" where
  "toArray r = (case r of SingleStyle st \<Rightarrow> [st] | StyleArray sts \<Rightarrow> sts)"

definition applyHighlight :: "vlayer \<Rightarrow> state \<Rightarrow> state" where
  "applyHighlight l s =
     (case selectedFeature s of
        None \<Rightarrow> s
      | Some f \<Rightarrow>
          (case layerStyleFunction (viewZoom s) l f of
             Inl e \<Rightarrow> s\<lparr>uncaught := uncaught s @ [e]\<rparr>
           | Inr originalStyle \<Rightarrow> setStyle f (Some (GlowStyle # toArray originalStyle)) s))"

text \<open>
  The event \<^verbatim>\<open>moveend\<close>, as the library dispatches it: the registered continuations run
  in the order of registration, each one removed as it is called; an exception that
  leaves a continuation leaves the dispatch, and the continuations registered after it
  stay registered.
\<close>

fun dispatchMoveend :: "vlayer list \<Rightarrow> state \<Rightarrow> state" where
  "dispatchMoveend [] s = s"
| "dispatchMoveend (l # ls) s =
     (let s1 = applyHighlight l (s\<lparr>moveendOnce := ls\<rparr>)
      in if raised s s1 then s1 else dispatchMoveend ls s1)"

definition moveEnd :: "state \<Rightarrow> state" where
  "moveEnd s = dispatchMoveend (moveendOnce s) s"

section \<open>Search\<close>

text \<open>
  The scan of \<^verbatim>\<open>performSearch\<close> (lines 1183 to 1212): the layers of the map in their
  order, and in each vector source its features in their order; every match overwrites
  \<open>foundFeature\<close> and \<open>foundLayer\<close>. An exception raised by the condition leaves the scan.
\<close>

fun scanFeatures ::
  "string \<Rightarrow> vlayer \<Rightarrow> feature list \<Rightarrow> (feature \<times> vlayer) option \<Rightarrow>
   error + (feature \<times> vlayer) option" where
  "scanFeatures searchTerm l [] found = Inr found"
| "scanFeatures searchTerm l (f # fs) found =
     (case searchMatches f (toLowerCase searchTerm) of
        Inl e \<Rightarrow> Inl e
      | Inr True \<Rightarrow> scanFeatures searchTerm l fs (Some (f, l))
      | Inr False \<Rightarrow> scanFeatures searchTerm l fs found)"

fun scanLayers ::
  "string \<Rightarrow> (vlayer \<Rightarrow> vsource) \<Rightarrow> layer list \<Rightarrow> (feature \<times> vlayer) option \<Rightarrow>
   error + (feature \<times> vlayer) option" where
  "scanLayers searchTerm srcs [] found = Inr found"
| "scanLayers searchTerm srcs (TileLayer # ls) found = scanLayers searchTerm srcs ls found"
| "scanLayers searchTerm srcs (VectorLayer l # ls) found =
     (case scanFeatures searchTerm l (sourceFeatures (srcs l)) found of
        Inl e \<Rightarrow> Inl e
      | Inr found' \<Rightarrow> scanLayers searchTerm srcs ls found')"

definition findFeature :: "string \<Rightarrow> state \<Rightarrow> error + (feature \<times> vlayer) option" where
  "findFeature searchTerm s = scanLayers searchTerm (sources s) mapLayers None"

definition emptyTermAlert :: string where
  "emptyTermAlert =
     ''Por favor, ingresa un t'' @ [CHR 0xE9] @ ''rmino de b'' @ [CHR 0xFA] @ ''squeda.''"

definition performSearch :: "string \<Rightarrow> state \<Rightarrow> state" where
  "performSearch searchTerm s =
     (if searchTerm = [] then s\<lparr>alerts := alerts s @ [emptyTermAlert]\<rparr>
      else
        (case findFeature searchTerm s of
           Inl e \<Rightarrow> s\<lparr>uncaught := uncaught s @ [e]\<rparr>
         | Inr (Some (foundFeature, foundLayer)) \<Rightarrow>
             requestFit searchMaxZoom foundFeature foundLayer
               (openPanel foundFeature (resetFeatureStyle s))
         | Inr None \<Rightarrow>
             s\<lparr>suggestionsList :=
                 suggestionsList s @ [NoResultsMessage ''No matches were found.''],
               suggestionsDisplay := DisplayBlock\<rparr>))"

text \<open>
  The click handler of the search button (lines 1282 to 1285): the list is hidden once
  \<^verbatim>\<open>performSearch\<close> has returned, and not when it raised.
\<close>

definition searchButtonClick :: "state \<Rightarrow> state" where
  "searchButtonClick s =
     (let s1 = performSearch (trim (searchBoxValue s)) s
      in if raised s s1 then s1 else s1\<lparr>suggestionsDisplay := DisplayNone\<rparr>)"

section \<open>Suggestions\<close>

text \<open>
  The \<^verbatim>\<open>keyup\<close> handler of the search box (lines 1287 to 1350). \<open>filterMatching\<close> is
  \<^verbatim>\<open>allFeatures.filter(...)\<close>, which an exception of the condition leaves;
  \<open>addSuggestions\<close> is the loop over the matching features with the set
  \<open>addedFeatureIds\<close>.
\<close>

fun filterMatching :: "string \<Rightarrow> feature list \<Rightarrow> error + feature list" where
  "filterMatching searchTerm [] = Inr []"
| "filterMatching searchTerm (f # fs) =
     (case suggestMatches f searchTerm of
        Inl e \<Rightarrow> Inl e
      | Inr b \<Rightarrow>
          (case filterMatching searchTerm fs of
             Inl e \<Rightarrow> Inl e
           | Inr rest \<Rightarrow> Inr (if b then f # rest else rest)))"

definition featureId :: "feature \<Rightarrow> jsval" where
  "featureId f = js_or (get f ''name'') (get f ''id'')"

fun addSuggestions :: "jsval set \<Rightarrow> feature list \<Rightarrow> feature list" where
  "addSuggestions addedFeatureIds [] = []"
| "addSuggestions addedFeatureIds (f # fs) =
     (if featureId f \<notin> addedFeatureIds
      then f # addSuggestions (insert (featureId f) addedFeatureIds) fs
      else addSuggestions addedFeatureIds fs)"

text \<open>
  The features the handler lists for a term that is not empty, when the filter returns:
  the spec's \<open>suggest\<close>.
\<close>

definition suggest :: "string \<Rightarrow> feature list \<Rightarrow> error + feature list" where
  "suggest searchTerm store =
     (case filterMatching searchTerm store of
        Inl e \<Rightarrow> Inl e
      | Inr matching \<Rightarrow> Inr (addSuggestions {} matching))"

definition noResultsText :: "string \<Rightarrow> string" where
  "noResultsText searchTerm =
     ''No se encontraron resultados para '' @ [CHR 0x22] @ searchTerm @ [CHR 0x22] @ ''.''"

definition searchBoxKeyup :: "state \<Rightarrow> state" where
  "searchBoxKeyup s =
     (let searchTerm = toLowerCase (trim (searchBoxValue s));
          s1 = s\<lparr>suggestionsList := []\<rparr>
      in if length searchTerm > 0 then
           (case filterMatching searchTerm (allFeatures s) of
              Inl e \<Rightarrow> s1\<lparr>uncaught := uncaught s1 @ [e]\<rparr>
            | Inr matchingFeatures \<Rightarrow>
                (if length matchingFeatures > 0 then
                   s1\<lparr>suggestionsList :=
                        map SuggestionItem (addSuggestions {} matchingFeatures),
                      suggestionsDisplay := DisplayBlock\<rparr>
                 else
                   s1\<lparr>suggestionsList := [NoResultsMessage (noResultsText searchTerm)],
                      suggestionsDisplay := DisplayBlock\<rparr>))
         else s1\<lparr>suggestionsDisplay := DisplayNone\<rparr>)"

text \<open>
  The click handler of a suggestion (lines 1331 to 1335), for the item made for feature
  \<open>f\<close>. The value assigned to the box is converted to a string: \<open>domString\<close>. As for the
  button, the list is hidden when \<^verbatim>\<open>performSearch\<close> has returned.
\<close>

fun showNat :: "nat \<Rightarrow> string" where
  "showNat n =
     (if n < 10 then [char_of (48 + n)] else showNat (n div 10) @ [char_of (48 + n mod 10)])"

definition showInt :: "int \<Rightarrow> string" where
  "showInt i = (if i < 0 then CHR ''-'' # showNat (nat (- i)) else showNat (nat i))"

fun domString :: "jsval \<Rightarrow> string" where
  "domString JUndefined = ''undefined''"
| "domString JNull = []"
| "domString (JBool b) = (if b then ''true'' else ''false'')"
| "domString (JNum n) = showInt n"
| "domString (JStr s) = s"
| "domString (JObj _) = ''[object Object]''"
| "domString (JGeometry _) = ''[object Object]''"

definition suggestionClick :: "feature \<Rightarrow> state \<Rightarrow> state" where
  "suggestionClick f s =
     (if SuggestionItem f \<in> set (suggestionsList s) then
        (let s1 = s\<lparr>searchBoxValue := domString (js_or (get f ''name'') (get f ''nombre''))\<rparr>;
             s2 = performSearch (trim (searchBoxValue s1)) s1
         in if raised s1 s2 then s2 else s2\<lparr>suggestionsDisplay := DisplayNone\<rparr>)
      else s)"

text \<open>The click handler of the search box (lines 1352 to 1356).\<close>

definition searchBoxClick :: "state \<Rightarrow> state" where
  "searchBoxClick s = (if length (searchBoxValue s) > 0 then s\<lparr>searchBoxValue := []\<rparr> else s)"

section \<open>Panels\<close>

text \<open>
  The close button (lines 1046 to 1049), the button of the layer controls (lines 925 to
  931) and the two click listeners of the document (lines 946 to 961 and 1358 to 1362).
  The flags of \<open>documentClickPanels\<close> say whether the target of the click lies inside the
  layer controls, the toggle button and the info panel; the flag of
  \<open>documentClickSearch\<close> whether it lies inside the search container.
\<close>

definition closePanelClick :: "state \<Rightarrow> state" where
  "closePanelClick s = resetFeatureStyle (s\<lparr>infoPanelOpen := False\<rparr>)"

definition toggleLayerControlsClick :: "state \<Rightarrow> state" where
  "toggleLayerControlsClick s =
     (let opened = \<not> layerControlsOpen s;
          s1 = s\<lparr>layerControlsOpen := opened,
                 toggleButtonDisplay := (if opened then DisplayNone else DisplayBlock)\<rparr>
      in if infoPanelOpen s1 then s1\<lparr>infoPanelOpen := False\<rparr> else s1)"

definition documentClickPanels :: "bool \<Rightarrow> bool \<Rightarrow> bool \<Rightarrow> state \<Rightarrow> state" where
  "documentClickPanels inLayerControls inToggleButton inInfoPanel s =
     (if isClickOnFeature s then s\<lparr>isClickOnFeature := False\<rparr>
      else
        (let s1 = (if layerControlsOpen s \<and> \<not> inLayerControls \<and> \<not> inToggleButton
                   then s\<lparr>layerControlsOpen := False, toggleButtonDisplay := DisplayBlock\<rparr>
                   else s)
         in if infoPanelOpen s1 \<and> \<not> inInfoPanel
            then resetFeatureStyle (s1\<lparr>infoPanelOpen := False\<rparr>)
            else s1))"

definition documentClickSearch :: "bool \<Rightarrow> state \<Rightarrow> state" where
  "documentClickSearch inSearchContainer s =
     (if \<not> inSearchContainer then s\<lparr>suggestionsDisplay := DisplayNone\<rparr> else s)"

section \<open>Events\<close>

text \<open>
  One event is one call of a handler. \<open>SourceLoaded\<close>, \<open>BoxInput\<close>, \<open>Layout\<close> and
  \<open>ViewChanged\<close> are the changes made from outside the script: the library fills a
  source, the user edits the search box, the browser lays the page out again, the camera
  reaches another zoom.
\<close>

datatype event =
    MapClick "(feature \<times> vlayer) list"
  | MoveEnd
  | SearchButtonClick
  | SearchBoxKeyup
  | SearchBoxClick
  | SuggestionClick feature
  | ClosePanelClick
  | ToggleLayerControlsClick
  | DocumentClickPanels bool bool bool
  | DocumentClickSearch bool
  | SourceChange vlayer
  | SourceLoaded vlayer vsource
  | BoxInput string
  | Layout int int int
  | ViewChanged real

fun step :: "state \<Rightarrow> event \<Rightarrow> state" where
  "step s (MapClick hits) = mapClick hits s"
| "step s MoveEnd = moveEnd s"
| "step s SearchButtonClick = searchButtonClick s"
| "step s SearchBoxKeyup = searchBoxKeyup s"
| "step s SearchBoxClick = searchBoxClick s"
| "step s (SuggestionClick f) = suggestionClick f s"
| "step s ClosePanelClick = closePanelClick s"
| "step s ToggleLayerControlsClick = toggleLayerControlsClick s"
| "step s (DocumentClickPanels a b c) = documentClickPanels a b c s"
| "step s (DocumentClickSearch a) = documentClickSearch a s"
| "step s (SourceChange l) = sourceChange l s"
| "step s (SourceLoaded l src) = s\<lparr>sources := (sources s)(l := src)\<rparr>"
| "step s (BoxInput v) = s\<lparr>searchBoxValue := v\<rparr>"
| "step s (Layout w h pw) =
     s\<lparr>innerWidth := w, infoPanelOffsetHeight := h, infoPanelOffsetWidth := pw\<rparr>"
| "step s (ViewChanged z) = s\<lparr>viewZoom := z\<rparr>"

definition run :: "state \<Rightarrow> event list \<Rightarrow> state" where
  "run s es = foldl step s es"

text \<open>
  The page when the script has run: nothing is selected, no feature carries a style of
  its own, the panels are closed, the search box is empty, the view has the zoom 4 the
  map is created with (line 684), and the first pass of \<^verbatim>\<open>initializeSearchFeatures\<close>
  has been made over the sources as they are then.
\<close>

definition blankState :: "(vlayer \<Rightarrow> vsource) \<Rightarrow> int \<Rightarrow> int \<Rightarrow> int \<Rightarrow> state" where
  "blankState srcs w h pw =
     \<lparr>sources = srcs, allFeatures = [], selectedFeature = None, featureStyle = (\<lambda>i. None),
      isClickOnFeature = False, panelContent = [], infoPanelOpen = False,
      layerControlsOpen = False, toggleButtonDisplay = DisplayUnset, searchBoxValue = [],
      suggestionsList = [], suggestionsDisplay = DisplayUnset, moveendOnce = [],
      fitRequests = [], alerts = [], uncaught = [], innerWidth = w,
      infoPanelOffsetHeight = h, infoPanelOffsetWidth = pw, viewZoom = 4\<rparr>"

definition initialState :: "(vlayer \<Rightarrow> vsource) \<Rightarrow> int \<Rightarrow> int \<Rightarrow> int \<Rightarrow> state" where
  "initialState srcs w h pw = initializeSearchFeatures (blankState srcs w h pw)"

section \<open>Notions used to state the properties\<close>

text \<open>
  A value is textual when it is a string or it is falsy. \<open>containsCI v q\<close> says that \<open>v\<close>
  is a string that contains \<open>q\<close> when both are put in lower case.
\<close>

fun textual :: "jsval \<Rightarrow> bool" where
  "textual (JStr s) = True"
| "textual v = (\<not> truthy v)"

definition containsCI :: "jsval \<Rightarrow> string \<Rightarrow> bool" where
  "containsCI v q =
     (case v of JStr s \<Rightarrow> includesStr (toLowerCase s) (toLowerCase q) | _ \<Rightarrow> False)"

text \<open>
  The two conditions, field by field: the value of \<^verbatim>\<open>name\<close>, or of \<^verbatim>\<open>nombre\<close> when
  \<^verbatim>\<open>name\<close> is falsy, is a string that contains the query, or the same holds for one of
  the next fields. \<open>suggestHit\<close> is \<open>searchHit\<close> with the type added.
\<close>

definition searchHit :: "string \<Rightarrow> feature \<Rightarrow> bool" where
  "searchHit q f =
     (containsCI (if truthy (get f ''name'') then get f ''name'' else get f ''nombre'') q \<or>
      containsCI
        (if truthy (get f ''location'') then get f ''location'' else get f key_ubicacion) q \<or>
      containsCI
        (if truthy (get f ''address'') then get f ''address'' else get f key_Direccion) q \<or>
      containsCI (get f ''comuna'') q \<or>
      containsCI (get f ''Empresa'') q \<or>
      containsCI
        (if truthy (get f ''operator'') then get f ''operator'' else get f ''operador'') q)"

definition suggestHit :: "string \<Rightarrow> feature \<Rightarrow> bool" where
  "suggestHit q f = (searchHit q f \<or> containsCI (get f ''type'') q)"

text \<open>
  The condition raises on a feature when, going through the fields in the order in which
  they are tested, it comes to one that is truthy and not a string before it comes to one
  that matches.
\<close>

fun raisesAt :: "string \<Rightarrow> jsval list \<Rightarrow> bool" where
  "raisesAt q [] = False"
| "raisesAt q (v # vs) = (\<not> textual v \<or> (\<not> containsCI v q \<and> raisesAt q vs))"

definition searchRaises :: "string \<Rightarrow> feature \<Rightarrow> bool" where
  "searchRaises q f =
     raisesAt q
       [if truthy (get f ''name'') then get f ''name'' else get f ''nombre'',
        if truthy (get f ''location'') then get f ''location'' else get f key_ubicacion,
        if truthy (get f ''address'') then get f ''address'' else get f key_Direccion,
        get f ''comuna'',
        get f ''Empresa'',
        if truthy (get f ''operator'') then get f ''operator'' else get f ''operador'']"

definition suggestRaises :: "string \<Rightarrow> feature \<Rightarrow> bool" where
  "suggestRaises q f =
     raisesAt q
       [if truthy (get f ''name'') then get f ''name'' else get f ''nombre'',
        get f ''type'',
        if truthy (get f ''location'') then get f ''location'' else get f key_ubicacion,
        if truthy (get f ''address'') then get f ''address'' else get f key_Direccion,
        get f ''comuna'',
        get f ''Empresa'',
        if truthy (get f ''operator'') then get f ''operator'' else get f ''operador'']"

text \<open>
  The key by which the suggestions are told apart: the value of \<^verbatim>\<open>name\<close>, and the value
  of \<^verbatim>\<open>id\<close> when \<^verbatim>\<open>name\<close> is absent or falsy.
\<close>

definition suggestionKey :: "feature \<Rightarrow> jsval" where
  "suggestionKey f = (if truthy (get f ''name'') then get f ''name'' else get f ''id'')"

text \<open>
  The features in the order the scan of \<^verbatim>\<open>performSearch\<close> meets them, each with its
  layer, and the last element of a list, if any.
\<close>

fun layerFeatures :: "(vlayer \<Rightarrow> vsource) \<Rightarrow> layer \<Rightarrow> (feature \<times> vlayer) list" where
  "layerFeatures srcs TileLayer = []"
| "layerFeatures srcs (VectorLayer l) = map (\<lambda>f. (f, l)) (sourceFeatures (srcs l))"

definition scanOrder :: "(vlayer \<Rightarrow> vsource) \<Rightarrow> (feature \<times> vlayer) list" where
  "scanOrder srcs = concat (map (layerFeatures srcs) mapLayers)"

definition lastOption :: "'a list \<Rightarrow> 'a option" where
  "lastOption xs = (if xs = [] then None else Some (last xs))"

definition lastOr :: "'a option \<Rightarrow> 'a list \<Rightarrow> 'a option" where
  "lastOr found xs = (if xs = [] then found else Some (last xs))"

text \<open>
  The spec's \<open>findFirst\<close>, in its words: the last feature met in a scan of the Feature
  Store that satisfies the condition.
\<close>

definition storeLastMatch :: "string \<Rightarrow> feature list \<Rightarrow> feature option" where
  "storeLastMatch q store = lastOption (filter (searchHit q) store)"

text \<open>
  What a call of \<^verbatim>\<open>setStyle\<close> on a feature appends to the store: the features of the
  ready sources that hold it.
\<close>

definition readyOwners :: "state \<Rightarrow> feature \<Rightarrow> vlayer list" where
  "readyOwners s f = filter (\<lambda>l. sourceState (sources s l) = Ready) (owners (sources s) f)"

definition reappended :: "state \<Rightarrow> feature \<Rightarrow> feature list" where
  "reappended s f = concat (map (\<lambda>l. sourceFeatures (sources s l)) (readyOwners s f))"

text \<open>
  The features that carry a style of their own, by identity, and the invariant: only the
  selected feature can carry one.
\<close>

definition highlighted :: "state \<Rightarrow> nat set" where
  "highlighted s = dom (featureStyle s)"

definition selectedIds :: "state \<Rightarrow> nat set" where
  "selectedIds s = (case selectedFeature s of None \<Rightarrow> {} | Some f \<Rightarrow> {fid f})"

definition highlightExclusive :: "state \<Rightarrow> bool" where
  "highlightExclusive s = (highlighted s \<subseteq> selectedIds s)"

section \<open>Example data\<close>

text \<open>
  A landing point, a data centre and two cables of the same name in different layers,
  loaded in the order points, data centres, land cables, cables.
\<close>

definition valparaiso :: feature where
  "valparaiso =
     \<lparr>fid = 1,
      properties = [(''name'', JStr (''Valpara'' @ [CHR 0xED] @ ''so'')),
                    (''type'', JStr ''Punto de aterrizaje''), (''geometry'', JGeometry Point)]\<rparr>"

definition dcSantiago :: feature where
  "dcSantiago =
     \<lparr>fid = 2,
      properties = [(''name'', JStr ''DC Santiago''), (''type'', JStr ''Data Center''),
                    (''Empresa'', JStr ''Entel''), (''geometry'', JGeometry Polygon)]\<rparr>"

definition cableA :: feature where
  "cableA =
     \<lparr>fid = 3,
      properties = [(''name'', JStr ''Cable A''), (''lineDash'', JObj 103),
                    (''geometry'', JGeometry LineString)]\<rparr>"

definition landCableA :: feature where
  "landCableA =
     \<lparr>fid = 4,
      properties = [(''name'', JStr ''Cable A''), (''geometry'', JGeometry LineString)]\<rparr>"

definition emptySources :: "vlayer \<Rightarrow> vsource" where
  "emptySources = (\<lambda>l. \<lparr>sourceState = Ready, sourceFeatures = []\<rparr>)"

definition loadEvents :: "event list" where
  "loadEvents =
     [SourceLoaded PointLayer \<lparr>sourceState = Ready, sourceFeatures = [valparaiso]\<rparr>,
      SourceChange PointLayer,
      SourceLoaded DataCenterLayer \<lparr>sourceState = Ready, sourceFeatures = [dcSantiago]\<rparr>,
      SourceChange DataCenterLayer,
      SourceLoaded LandCableLayer \<lparr>sourceState = Ready, sourceFeatures = [landCableA]\<rparr>,
      SourceChange LandCableLayer,
      SourceLoaded CableLayer \<lparr>sourceState = Ready, sourceFeatures = [cableA]\<rparr>,
      SourceChange CableLayer]"

definition loadedState :: state where
  "loadedState = run (initialState emptySources 1024 600 320) loadEvents"

text \<open>
  Selections on the loaded page: the cable is clicked and the camera settles, then the
  data centre is clicked and the camera settles at zoom 15 (\<open>afterBoth\<close>); and the two
  clicks with no \<^verbatim>\<open>moveend\<close> between them (\<open>raceState\<close>), where both continuations are
  still pending.
\<close>

definition selectionEvents :: "event list" where
  "selectionEvents =
     [MapClick [(cableA, CableLayer)], MoveEnd,
      MapClick [(dcSantiago, DataCenterLayer)], ViewChanged 15, MoveEnd]"

definition afterCable :: state where
  "afterCable = run loadedState [MapClick [(cableA, CableLayer)], MoveEnd]"

definition afterBoth :: state where
  "afterBoth = run (initialState emptySources 1024 600 320) (loadEvents @ selectionEvents)"

definition raceState :: state where
  "raceState =
     run loadedState [MapClick [(cableA, CableLayer)], MapClick [(dcSantiago, DataCenterLayer)]]"

text \<open>
  Further features: a cable whose name is a number, two ducts whose name is the empty
  string, and a node without geometry (in GeoJSON, a feature whose geometry is
  \<^verbatim>\<open>null\<close>). \<open>numberedState\<close> is the loaded page when the cable source holds the
  numbered cable too, and \<open>ductState\<close> when the land cable source holds the two ducts
  too. In \<open>staleState\<close> the point source holds the node, the data centre has been
  clicked and, before the camera settles, the node has been found by the search button;
  each of the two clicks reaches the click listeners of the document as well.
\<close>

definition numberedCable :: feature where
  "numberedCable =
     \<lparr>fid = 5, properties = [(''name'', JNum 12), (''geometry'', JGeometry LineString)]\<rparr>"

definition ductA :: feature where
  "ductA =
     \<lparr>fid = 6,
      properties = [(''name'', JStr []), (''id'', JNum 1), (''type'', JStr ''Ducto''),
                    (''geometry'', JGeometry LineString)]\<rparr>"

definition ductB :: feature where
  "ductB =
     \<lparr>fid = 7,
      properties = [(''name'', JStr []), (''id'', JNum 2), (''type'', JStr ''Ducto''),
                    (''geometry'', JGeometry LineString)]\<rparr>"

definition nodeSouth :: feature where
  "nodeSouth = \<lparr>fid = 8, properties = [(''name'', JStr ''Nodo Sur'')]\<rparr>"

definition numberedState :: state where
  "numberedState =
     run loadedState
       [SourceLoaded CableLayer \<lparr>sourceState = Ready, sourceFeatures = [cableA, numberedCable]\<rparr>,
        SourceChange CableLayer]"

definition ductState :: state where
  "ductState =
     run loadedState
       [SourceLoaded LandCableLayer
          \<lparr>sourceState = Ready, sourceFeatures = [landCableA, ductA, ductB]\<rparr>,
        SourceChange LandCableLayer]"

definition staleState :: state where
  "staleState =
     run loadedState
       [SourceLoaded PointLayer \<lparr>sourceState = Ready, sourceFeatures = [valparaiso, nodeSouth]\<rparr>,
        SourceChange PointLayer,
        BoxInput ''nodo'',
        MapClick [(dcSantiago, DataCenterLayer)],
        DocumentClickPanels False False False, DocumentClickSearch False,
        SearchButtonClick,
        DocumentClickPanels False False False, DocumentClickSearch True]"

section \<open>Strings\<close>

lemma includesStr_sublist: "includesStr s t \<longleftrightarrow> sublist t s"
  by (induction s) (auto simp: sublist_Cons_right)

lemma toLowerCase_Nil_iff [simp]: "toLowerCase q = [] \<longleftrightarrow> q = []"
  by (simp add: toLowerCase_def)

lemma trim_whitespace:
  assumes "\<forall>c\<in>set v. isSpace c"
  shows "trim v = []"
proof -
  have "dropWhile isSpace v = []" using assms by simp
  then show ?thesis by (simp add: trim_def del: dropWhile_eq_Nil_conv)
qed

lemma trim_empty_iff: "trim v = [] \<longleftrightarrow> (\<forall>c\<in>set v. isSpace c)"
proof
  assume "trim v = []"
  then have all: "\<forall>x\<in>set (dropWhile isSpace v). isSpace x"
    by (simp add: trim_def)
  have "dropWhile isSpace v = []"
  proof (rule ccontr)
    assume ne: "dropWhile isSpace v \<noteq> []"
    then have "\<not> isSpace (hd (dropWhile isSpace v))" by (rule hd_dropWhile)
    moreover have "hd (dropWhile isSpace v) \<in> set (dropWhile isSpace v)" using ne by simp
    ultimately show False using all by blast
  qed
  then show "\<forall>c\<in>set v. isSpace c" by simp
next
  assume "\<forall>c\<in>set v. isSpace c"
  then show "trim v = []" by (rule trim_whitespace)
qed

section \<open>What a call of setStyle does\<close>

text \<open>
  The listeners of the sources that hold the feature run inside \<^verbatim>\<open>setStyle\<close>: the call
  stores the style and appends the features of those sources that are ready to the store,
  and changes nothing else.
\<close>

lemma foldl_sourceChange:
  "foldl (\<lambda>s' l. sourceChange l s') s ls =
     s\<lparr>allFeatures := allFeatures s @
          concat (map (\<lambda>l. sourceFeatures (sources s l))
                    (filter (\<lambda>l. sourceState (sources s l) = Ready) ls))\<rparr>"
  by (induction ls arbitrary: s) (simp_all add: sourceChange_def pushFeatures_def)

lemma setStyle_eq:
  "setStyle f st s =
     s\<lparr>allFeatures := allFeatures s @ reappended s f,
       featureStyle := (featureStyle s)(fid f := st)\<rparr>"
  by (simp add: setStyle_def foldl_sourceChange reappended_def readyOwners_def)

lemma resetFeatureStyle_eq:
  "resetFeatureStyle s =
     (case selectedFeature s of
        None \<Rightarrow> s
      | Some f \<Rightarrow>
          s\<lparr>allFeatures := allFeatures s @ reappended s f,
            selectedFeature := None,
            featureStyle := (featureStyle s)(fid f := None)\<rparr>)"
  by (simp add: resetFeatureStyle_def setStyle_eq split: option.split)

lemma applyHighlight_eq:
  "applyHighlight l s =
     (case selectedFeature s of
        None \<Rightarrow> s
      | Some f \<Rightarrow>
          (case layerStyleFunction (viewZoom s) l f of
             Inl e \<Rightarrow> s\<lparr>uncaught := uncaught s @ [e]\<rparr>
           | Inr r \<Rightarrow>
               s\<lparr>allFeatures := allFeatures s @ reappended s f,
                 featureStyle := (featureStyle s)(fid f \<mapsto> GlowStyle # toArray r)\<rparr>))"
  by (simp add: applyHighlight_def setStyle_eq split: option.split sum.split)

section \<open>What the handlers leave unchanged\<close>

lemma sources_resetFeatureStyle [simp]: "sources (resetFeatureStyle s) = sources s"
  by (simp add: resetFeatureStyle_eq split: option.split)

lemma fitRequests_resetFeatureStyle [simp]: "fitRequests (resetFeatureStyle s) = fitRequests s"
  by (simp add: resetFeatureStyle_eq split: option.split)

lemma moveendOnce_resetFeatureStyle [simp]: "moveendOnce (resetFeatureStyle s) = moveendOnce s"
  by (simp add: resetFeatureStyle_eq split: option.split)

lemma uncaught_resetFeatureStyle [simp]: "uncaught (resetFeatureStyle s) = uncaught s"
  by (simp add: resetFeatureStyle_eq split: option.split)

lemma selectedFeature_resetFeatureStyle [simp]: "selectedFeature (resetFeatureStyle s) = None"
  by (simp add: resetFeatureStyle_eq split: option.split)

lemma featureStyle_resetFeatureStyle:
  "featureStyle (resetFeatureStyle s) =
     (case selectedFeature s of None \<Rightarrow> featureStyle s | Some f \<Rightarrow> (featureStyle s)(fid f := None))"
  by (simp add: resetFeatureStyle_eq split: option.split)

lemma allFeatures_resetFeatureStyle:
  "allFeatures (resetFeatureStyle s) =
     allFeatures s @ (case selectedFeature s of None \<Rightarrow> [] | Some f \<Rightarrow> reappended s f)"
  by (simp add: resetFeatureStyle_eq split: option.split)

lemma allFeatures_closeLayerControls [simp]: "allFeatures (closeLayerControls s) = allFeatures s"
  by (simp add: closeLayerControls_def)

lemma allFeatures_openPanel [simp]: "allFeatures (openPanel f s) = allFeatures s"
  by (simp add: openPanel_def)

lemma allFeatures_requestFit [simp]: "allFeatures (requestFit z f l s) = allFeatures s"
  by (simp add: requestFit_def split: sum.split)

lemma fitRequests_openPanel [simp]: "fitRequests (openPanel f s) = fitRequests s"
  by (simp add: openPanel_def closeLayerControls_def)

lemma fitRequests_requestFit:
  "truthy (getGeometry f) \<Longrightarrow> zoom f = Inr z \<Longrightarrow>
   map fitMaxZoom (fitRequests (requestFit zoom f l s)) = map fitMaxZoom (fitRequests s) @ [z]"
  by (simp add: requestFit_def)

section \<open>The Feature Store only grows\<close>

lemma allFeatures_sourceChange:
  "allFeatures (sourceChange l s) =
     (if sourceState (sources s l) = Ready then allFeatures s @ sourceFeatures (sources s l)
      else allFeatures s)"
  by (simp add: sourceChange_def pushFeatures_def)

lemma prefix_resetFeatureStyle: "prefix (allFeatures s) (allFeatures (resetFeatureStyle s))"
  by (simp add: allFeatures_resetFeatureStyle)

lemma prefix_mapClick: "prefix (allFeatures s) (allFeatures (mapClick hits s))"
proof (cases "hits = []")
  case True
  have "prefix (allFeatures (s\<lparr>isClickOnFeature := False, infoPanelOpen := False\<rparr>))
          (allFeatures (resetFeatureStyle (s\<lparr>isClickOnFeature := False, infoPanelOpen := False\<rparr>)))"
    by (rule prefix_resetFeatureStyle)
  with True show ?thesis by (simp add: mapClick_def)
next
  case False
  then show ?thesis by (simp add: mapClick_def Let_def prefix_resetFeatureStyle)
qed

lemma prefix_performSearch: "prefix (allFeatures s) (allFeatures (performSearch t s))"
  by (simp add: performSearch_def prefix_resetFeatureStyle split: sum.split option.split prod.split)

lemma prefix_applyHighlight: "prefix (allFeatures s) (allFeatures (applyHighlight l s))"
  by (simp add: applyHighlight_eq split: option.split sum.split)

lemma prefix_dispatchMoveend: "prefix (allFeatures s) (allFeatures (dispatchMoveend ls s))"
proof (induction ls arbitrary: s)
  case Nil
  show ?case by simp
next
  case (Cons l ls)
  let ?s1 = "applyHighlight l (s\<lparr>moveendOnce := ls\<rparr>)"
  have a: "prefix (allFeatures s) (allFeatures ?s1)"
    using prefix_applyHighlight [of "s\<lparr>moveendOnce := ls\<rparr>" l] by simp
  show ?case
  proof (cases "raised s ?s1")
    case True
    with a show ?thesis by (simp add: Let_def)
  next
    case False
    from a Cons.IH [of ?s1] have "prefix (allFeatures s) (allFeatures (dispatchMoveend ls ?s1))"
      by (rule prefix_order.order_trans)
    with False show ?thesis by (simp add: Let_def)
  qed
qed

lemma prefix_documentClickPanels:
  "prefix (allFeatures s) (allFeatures (documentClickPanels a b c s))"
proof -
  define s1 where "s1 = (if layerControlsOpen s \<and> \<not> a \<and> \<not> b
                   then s\<lparr>layerControlsOpen := False, toggleButtonDisplay := DisplayBlock\<rparr>
                   else s)"
  have eq: "allFeatures (s1\<lparr>infoPanelOpen := False\<rparr>) = allFeatures s" by (simp add: s1_def)
  have "prefix (allFeatures (s1\<lparr>infoPanelOpen := False\<rparr>))
          (allFeatures (resetFeatureStyle (s1\<lparr>infoPanelOpen := False\<rparr>)))"
    by (rule prefix_resetFeatureStyle)
  with eq have "prefix (allFeatures s) (allFeatures (resetFeatureStyle (s1\<lparr>infoPanelOpen := False\<rparr>)))"
    by simp
  moreover have "allFeatures s1 = allFeatures s" by (simp add: s1_def)
  ultimately show ?thesis by (simp add: documentClickPanels_def Let_def flip: s1_def)
qed

lemma prefix_allFeatures_step: "prefix (allFeatures s) (allFeatures (step s e))"
proof (cases e)
  case (MapClick hits)
  then show ?thesis by (simp add: prefix_mapClick)
next
  case MoveEnd
  then show ?thesis by (simp add: moveEnd_def prefix_dispatchMoveend)
next
  case SearchButtonClick
  then show ?thesis by (simp add: searchButtonClick_def Let_def prefix_performSearch)
next
  case SearchBoxKeyup
  then show ?thesis by (simp add: searchBoxKeyup_def Let_def split: sum.split)
next
  case SearchBoxClick
  then show ?thesis by (simp add: searchBoxClick_def)
next
  case (SuggestionClick f)
  have "prefix (allFeatures (s\<lparr>searchBoxValue := v\<rparr>))
          (allFeatures (performSearch t (s\<lparr>searchBoxValue := v\<rparr>)))" for v t
    by (rule prefix_performSearch)
  then show ?thesis by (simp add: SuggestionClick suggestionClick_def Let_def)
next
  case ClosePanelClick
  have "prefix (allFeatures (s\<lparr>infoPanelOpen := False\<rparr>))
          (allFeatures (resetFeatureStyle (s\<lparr>infoPanelOpen := False\<rparr>)))"
    by (rule prefix_resetFeatureStyle)
  then show ?thesis by (simp add: ClosePanelClick closePanelClick_def)
next
  case ToggleLayerControlsClick
  then show ?thesis by (simp add: toggleLayerControlsClick_def Let_def)
next
  case (DocumentClickPanels a b c)
  then show ?thesis by (simp add: prefix_documentClickPanels)
next
  case (DocumentClickSearch a)
  then show ?thesis by (simp add: documentClickSearch_def)
next
  case (SourceChange l)
  then show ?thesis by (simp add: allFeatures_sourceChange)
next
  case (SourceLoaded l src)
  then show ?thesis by simp
next
  case (BoxInput v)
  then show ?thesis by simp
next
  case (Layout w h pw)
  then show ?thesis by simp
next
  case (ViewChanged z)
  then show ?thesis by simp
qed

lemma prefix_allFeatures_run: "prefix (allFeatures s) (allFeatures (run s es))"
proof (induction es arbitrary: s)
  case Nil
  show ?case by (simp add: run_def)
next
  case (Cons e es)
  have "prefix (allFeatures s) (allFeatures (step s e))" by (rule prefix_allFeatures_step)
  also have "prefix (allFeatures (step s e)) (allFeatures (run (step s e) es))" by (rule Cons.IH)
  finally show ?case by (simp add: run_def)
qed

text \<open>
  C9. The listener of a layer's \<^verbatim>\<open>change\<close> event appends the features the source holds
  then to \<open>allFeatures\<close> when the source is ready, once per call, and leaves the store alone
  otherwise. Every handler leaves the store it found as the beginning of the store it
  leaves (the handlers that set a style run the listener inside the call), so over any
  sequence of events the store at the start is a prefix of the store at the end, and its
  length never decreases.
\<close>

theorem store_append_only:
  "(sourceState (sources s l) = Ready \<longrightarrow>
      allFeatures (sourceChange l s) = allFeatures s @ sourceFeatures (sources s l)) \<and>
   (sourceState (sources s l) \<noteq> Ready \<longrightarrow> allFeatures (sourceChange l s) = allFeatures s) \<and>
   prefix (allFeatures s) (allFeatures (step s e)) \<and>
   prefix (allFeatures s) (allFeatures (run s es)) \<and>
   length (allFeatures s) \<le> length (allFeatures (run s es))"
  using prefix_allFeatures_run [of s es] prefix_allFeatures_step [of s e]
  by (auto simp: allFeatures_sourceChange prefix_length_le)

theorem store_append_only_witness:
  "sourceState (sources loadedState CableLayer) = Ready \<and>
   allFeatures loadedState = [valparaiso, dcSantiago, landCableA, cableA] \<and>
   allFeatures (sourceChange CableLayer loadedState) =
     [valparaiso, dcSantiago, landCableA, cableA, cableA] \<and>
   sourceState (sources (step loadedState (SourceLoaded PointLayer
       \<lparr>sourceState = Loading, sourceFeatures = []\<rparr>)) PointLayer) \<noteq> Ready \<and>
   allFeatures (sourceChange PointLayer (step loadedState (SourceLoaded PointLayer
       \<lparr>sourceState = Loading, sourceFeatures = []\<rparr>))) =
     [valparaiso, dcSantiago, landCableA, cableA] \<and>
   allFeatures (run loadedState [MapClick [(cableA, CableLayer)], MoveEnd]) =
     [valparaiso, dcSantiago, landCableA, cableA, cableA] \<and>
   prefix (allFeatures loadedState)
     (allFeatures (run loadedState [MapClick [(cableA, CableLayer)], MoveEnd]))"
proof -
  let ?s = "step loadedState (SourceLoaded PointLayer \<lparr>sourceState = Loading, sourceFeatures = []\<rparr>)"
  have ready: "sourceState (sources loadedState CableLayer) = Ready" by code_simp
  have store: "allFeatures loadedState = [valparaiso, dcSantiago, landCableA, cableA]"
    by code_simp
  have src: "sourceFeatures (sources loadedState CableLayer) = [cableA]" by code_simp
  have loading: "sourceState (sources ?s PointLayer) \<noteq> Ready" by simp
  have same: "allFeatures ?s = allFeatures loadedState" by simp
  have moved: "allFeatures (run loadedState [MapClick [(cableA, CableLayer)], MoveEnd]) =
      [valparaiso, dcSantiago, landCableA, cableA, cableA]"
    by code_simp
  from store_append_only
         [of loadedState CableLayer MoveEnd "[MapClick [(cableA, CableLayer)], MoveEnd]"]
       store_append_only [of ?s PointLayer MoveEnd "[]"]
    ready store src loading same moved
  show ?thesis by simp
qed

section \<open>Clicking the search box\<close>

text \<open>
  C10. After the click handler of the search box has run the box is empty: a text that was
  there is replaced by the empty string and nothing else changes, and an empty box leaves
  the whole state as it was.
\<close>

theorem searchBoxClick_clears:
  "searchBoxValue (searchBoxClick s) = [] \<and>
   (searchBoxValue s \<noteq> [] \<longrightarrow> searchBoxClick s = s\<lparr>searchBoxValue := []\<rparr>) \<and>
   (searchBoxValue s = [] \<longrightarrow> searchBoxClick s = s)"
  by (simp add: searchBoxClick_def)

theorem searchBoxClick_clears_witness:
  "searchBoxValue (loadedState\<lparr>searchBoxValue := ''cable''\<rparr>) \<noteq> [] \<and>
   searchBoxClick (loadedState\<lparr>searchBoxValue := ''cable''\<rparr>) =
     loadedState\<lparr>searchBoxValue := []\<rparr>"
  using searchBoxClick_clears [of "loadedState\<lparr>searchBoxValue := ''cable''\<rparr>"]
  by simp

section \<open>Empty queries\<close>

text \<open>
  C7. When the text of the search box is empty or holds white space only, its trimmed form
  is empty; \<^verbatim>\<open>performSearch\<close> on it calls \<^verbatim>\<open>alert\<close> with the prompt and changes nothing
  else of the state (selection, styles, panel and store are as before), and the
  \<^verbatim>\<open>keyup\<close> handler empties the suggestion list and hides it.
\<close>

theorem empty_query_rejected:
  assumes "\<forall>c\<in>set v. isSpace c"
  shows "trim v = [] \<and>
         performSearch (trim v) s = s\<lparr>alerts := alerts s @ [emptyTermAlert]\<rparr> \<and>
         searchBoxKeyup (s\<lparr>searchBoxValue := v\<rparr>) =
           s\<lparr>searchBoxValue := v, suggestionsList := [], suggestionsDisplay := DisplayNone\<rparr>"
  using assms
  by (simp add: trim_whitespace performSearch_def searchBoxKeyup_def toLowerCase_def)

theorem empty_query_rejected_witness:
  "trim ''   '' = [] \<and>
   performSearch (trim ''   '') loadedState =
     loadedState\<lparr>alerts := alerts loadedState @ [emptyTermAlert]\<rparr> \<and>
   searchBoxKeyup (loadedState\<lparr>searchBoxValue := ''   ''\<rparr>) =
     loadedState\<lparr>searchBoxValue := ''   '', suggestionsList := [],
       suggestionsDisplay := DisplayNone\<rparr>"
proof -
  have sp: "\<forall>c\<in>set ''   ''. isSpace c" by code_simp
  from empty_query_rejected [OF sp, of loadedState] show ?thesis by blast
qed

section \<open>The maximal zoom of the camera fit\<close>

lemma typeIs_string: "typeIs (JStr t) lit = Inr (t \<noteq> [] \<and> toLowerCase t = lit)"
  by (auto simp: typeIs_def)

lemma typeIs_falsy: "\<not> truthy v \<Longrightarrow> typeIs v lit = Inr False"
  by (simp add: typeIs_def)

lemma maxZoom_raises:
  "truthy (get f ''type'') \<Longrightarrow> \<not> textual (get f ''type'') \<Longrightarrow>
   clickMaxZoom f = Inl TypeError \<and> searchMaxZoom f = Inl TypeError"
  by (cases "get f ''type''") (simp_all add: clickMaxZoom_def searchMaxZoom_def typeIs_def)

text \<open>
  C8. The type of the feature, put in lower case, decides the maximal zoom: a data centre
  gets 15 and a landing point 13 on both paths; a feature of another type, or with no
  type (absent or falsy), gets 16 from the map click and 14 from the search. When the
  feature has a geometry, this is the maximal zoom of the camera fit the handler requests.
\<close>

theorem max_zoom_policy:
  "(get f ''type'' = JStr t \<and> toLowerCase t = ''data center'' \<longrightarrow>
      clickMaxZoom f = Inr 15 \<and> searchMaxZoom f = Inr 15) \<and>
   (get f ''type'' = JStr t \<and> toLowerCase t = ''punto de aterrizaje'' \<longrightarrow>
      clickMaxZoom f = Inr 13 \<and> searchMaxZoom f = Inr 13) \<and>
   ((get f ''type'' = JStr t \<and> toLowerCase t \<noteq> ''data center'' \<and>
       toLowerCase t \<noteq> ''punto de aterrizaje'') \<or> \<not> truthy (get f ''type'') \<longrightarrow>
      clickMaxZoom f = Inr 16 \<and> searchMaxZoom f = Inr 14) \<and>
   (hits \<noteq> [] \<and> truthy (getGeometry (fst (last hits))) \<and>
      clickMaxZoom (fst (last hits)) = Inr z \<longrightarrow>
      map fitMaxZoom (fitRequests (mapClick hits s)) = map fitMaxZoom (fitRequests s) @ [z]) \<and>
   (q \<noteq> [] \<and> findFeature q s = Inr (Some (g, l)) \<and> truthy (getGeometry g) \<and>
      searchMaxZoom g = Inr z \<longrightarrow>
      map fitMaxZoom (fitRequests (performSearch q s)) = map fitMaxZoom (fitRequests s) @ [z])"
proof -
  have zoom:
    "(get f ''type'' = JStr t \<and> toLowerCase t = ''data center'' \<longrightarrow>
        clickMaxZoom f = Inr 15 \<and> searchMaxZoom f = Inr 15) \<and>
     (get f ''type'' = JStr t \<and> toLowerCase t = ''punto de aterrizaje'' \<longrightarrow>
        clickMaxZoom f = Inr 13 \<and> searchMaxZoom f = Inr 13) \<and>
     ((get f ''type'' = JStr t \<and> toLowerCase t \<noteq> ''data center'' \<and>
         toLowerCase t \<noteq> ''punto de aterrizaje'') \<or> \<not> truthy (get f ''type'') \<longrightarrow>
        clickMaxZoom f = Inr 16 \<and> searchMaxZoom f = Inr 14)"
    by (auto simp: clickMaxZoom_def searchMaxZoom_def typeIs_string typeIs_falsy toLowerCase_def)
  have click:
    "hits \<noteq> [] \<and> truthy (getGeometry (fst (last hits))) \<and>
       clickMaxZoom (fst (last hits)) = Inr z \<longrightarrow>
     map fitMaxZoom (fitRequests (mapClick hits s)) = map fitMaxZoom (fitRequests s) @ [z]"
    by (simp add: mapClick_def Let_def fitRequests_requestFit)
  have search:
    "q \<noteq> [] \<and> findFeature q s = Inr (Some (g, l)) \<and> truthy (getGeometry g) \<and>
       searchMaxZoom g = Inr z \<longrightarrow>
     map fitMaxZoom (fitRequests (performSearch q s)) = map fitMaxZoom (fitRequests s) @ [z]"
    by (simp add: performSearch_def fitRequests_requestFit)
  from zoom click search show ?thesis by blast
qed

theorem max_zoom_policy_witness:
  "clickMaxZoom valparaiso = Inr 13 \<and> searchMaxZoom valparaiso = Inr 13 \<and>
   clickMaxZoom dcSantiago = Inr 15 \<and> searchMaxZoom dcSantiago = Inr 15 \<and>
   clickMaxZoom cableA = Inr 16 \<and> searchMaxZoom cableA = Inr 14 \<and>
   map fitMaxZoom (fitRequests (mapClick [(dcSantiago, DataCenterLayer)] loadedState)) = [15] \<and>
   findFeature ''valpar'' loadedState = Inr (Some (valparaiso, PointLayer)) \<and>
   map fitMaxZoom (fitRequests (performSearch ''valpar'' loadedState)) = [13]"
proof -
  have ty: "get valparaiso ''type'' = JStr ''Punto de aterrizaje''"
    "get dcSantiago ''type'' = JStr ''Data Center''" "\<not> truthy (get cableA ''type'')"
    by code_simp+
  have lower: "toLowerCase ''Punto de aterrizaje'' = ''punto de aterrizaje''"
    "toLowerCase ''Data Center'' = ''data center''"
    by code_simp+
  have geo: "truthy (getGeometry dcSantiago)" "truthy (getGeometry valparaiso)" by code_simp+
  have found: "findFeature ''valpar'' loadedState = Inr (Some (valparaiso, PointLayer))"
    by code_simp
  have none: "fitRequests loadedState = []" by code_simp
  note a = max_zoom_policy [of valparaiso "''Punto de aterrizaje''" "[]" _ loadedState
      "''valpar''" valparaiso PointLayer]
  note b = max_zoom_policy [of dcSantiago "''Data Center''" "[(dcSantiago, DataCenterLayer)]" _
      loadedState]
  note c = max_zoom_policy [of cableA "[]"]
  from a ty lower have z1: "clickMaxZoom valparaiso = Inr 13 \<and> searchMaxZoom valparaiso = Inr 13"
    by blast
  from b ty lower have z2: "clickMaxZoom dcSantiago = Inr 15 \<and> searchMaxZoom dcSantiago = Inr 15"
    by blast
  from c ty have z3: "clickMaxZoom cableA = Inr 16 \<and> searchMaxZoom cableA = Inr 14"
    by blast
  from b [of 15] z2 geo none
  have f1: "map fitMaxZoom (fitRequests (mapClick [(dcSantiago, DataCenterLayer)] loadedState)) = [15]"
    by simp
  from a [of 13] z1 geo none found
  have f2: "map fitMaxZoom (fitRequests (performSearch ''valpar'' loadedState)) = [13]"
    by simp
  from z1 z2 z3 f1 found f2 show ?thesis by blast
qed

section \<open>The Formatter and the excluded keys\<close>

lemma formatProperty_excluded:
  "toLowerCase key \<in> set excludedKeys \<Longrightarrow> formatProperty props name key = []"
  by (simp add: formatProperty_def)

lemma lowerChar_not_D: "lowerChar c \<noteq> CHR ''D''"
proof -
  define n where "n = (of_char c :: nat)"
  have D: "(of_char (CHR ''D'') :: nat) = 68" by simp
  have "(of_char (lowerChar c) :: nat) \<noteq> 68"
  proof (cases "(65 \<le> n \<and> n \<le> 90) \<or> (192 \<le> n \<and> n \<le> 222 \<and> n \<noteq> 215)")
    case True
    then have "lowerChar c = char_of (n + 32)" by (auto simp: lowerChar_def Let_def n_def)
    then have "(of_char (lowerChar c) :: nat) = (n + 32) mod 256" by (simp only: of_char_of)
    moreover have "n + 32 < 256" using True by arith
    ultimately have "(of_char (lowerChar c) :: nat) = n + 32" by simp
    with True show ?thesis by arith
  next
    case False
    then have "lowerChar c = c" by (auto simp: lowerChar_def Let_def n_def)
    then have "(of_char (lowerChar c) :: nat) = n" by (simp add: n_def)
    with False show ?thesis by arith
  qed
  with D show ?thesis by metis
qed

lemma toLowerCase_not_lineDash: "toLowerCase key \<noteq> ''lineDash''"
proof
  assume "toLowerCase key = ''lineDash''"
  then have m: "map lowerChar key = ''lineDash''" by (simp add: toLowerCase_def)
  have len: "length key = 8" using arg_cong [OF m, of length] by simp
  have "map lowerChar key ! 4 = CHR ''D''" by (simp only: m) simp
  with len have "lowerChar (key ! 4) = CHR ''D''" by simp
  then show False by (simp add: lowerChar_not_D)
qed

lemma excluded_lowercase_keys:
  "toLowerCase key \<in> set excludedKeys \<longleftrightarrow>
   toLowerCase key \<in> {''name'', ''type'', ''shape'', ''color'', ''size'', ''opacity'',
     ''geometry'', ''width'', ''id''}"
  using toLowerCase_not_lineDash [of key] by (auto simp: excludedKeys_def)

text \<open>
  C4. The key \<^verbatim>\<open>lineDash\<close> stands in \<open>excludedKeys\<close> with its capital letter, and the
  loop compares the list with the key in lower case, so that entry never applies
  (\<open>toLowerCase_not_lineDash\<close>): for a cable that carries \<^verbatim>\<open>lineDash\<close> the Formatter
  emits a label/value line for it. The nine other keys are excluded in any spelling
  (\<open>formatProperty_excluded\<close>, \<open>excluded_lowercase_keys\<close>).
\<close>

theorem lineDash_line_emitted:
  "toLowerCase ''lineDash'' \<notin> set excludedKeys \<and>
   formatProperty (properties cableA) (JStr ''Cable A'') ''lineDash'' =
     [InfoItem ''LineDash'' (JObj 103)] \<and>
   getFormattedFeatureInfo cableA =
     [Heading (JStr ''Cable A''), Subtitle (JStr ''Elemento''), InfoItem ''LineDash'' (JObj 103)]"
  by code_simp

text \<open>
  A key that reads \<^verbatim>\<open>constructor\<close> in lower case gets the text of the inherited function
  as its label.
\<close>

lemma inherited_label:
  "formatProperty [(''Constructor'', JStr ''ACME'')] (JStr ''DC'') ''Constructor'' =
     [InfoItem ''function Object() { [native code] }'' (JStr ''ACME'')]"
  by code_simp

section \<open>The two conditions, field by field\<close>

lemma containsCI_sublist:
  "containsCI (JStr s) q \<longleftrightarrow> sublist (toLowerCase q) (toLowerCase s)"
  by (simp add: containsCI_def includesStr_sublist)

lemma fieldIncludes_textual:
  "q \<noteq> [] \<Longrightarrow> textual v \<Longrightarrow> fieldIncludes v (toLowerCase q) = Inr (containsCI v q)"
  by (cases v) (auto simp: fieldIncludes_def containsCI_def toLowerCase_def)

lemma fieldIncludes_raises:
  "\<not> textual v \<Longrightarrow> fieldIncludes v term = Inl TypeError"
  by (cases v) (auto simp: fieldIncludes_def)

lemma orChain_Inr_Cons: "orChain (Inr b # rest) = (if b then Inr True else orChain rest)"
  by (cases b) simp_all

lemma orChain_fields:
  assumes "q \<noteq> []"
  shows "orChain (map (\<lambda>v. fieldIncludes v (toLowerCase q)) vs) =
           (if raisesAt q vs then Inl TypeError else Inr (\<exists>v\<in>set vs. containsCI v q))"
proof (induction vs)
  case Nil
  show ?case by simp
next
  case (Cons v vs)
  show ?case
  proof (cases "textual v")
    case True
    with assms have "fieldIncludes v (toLowerCase q) = Inr (containsCI v q)"
      by (simp add: fieldIncludes_textual)
    with True Cons show ?thesis by (simp add: orChain_Inr_Cons)
  next
    case False
    then have "fieldIncludes v (toLowerCase q) = Inl TypeError" by (rule fieldIncludes_raises)
    with False show ?thesis by simp
  qed
qed

text \<open>
  For a query that is not empty, the condition of \<^verbatim>\<open>performSearch\<close> raises or returns as
  \<open>searchRaises\<close> and \<open>searchHit\<close> say, over its six fields, and the filter of the
  suggestions as \<open>suggestRaises\<close> and \<open>suggestHit\<close> say, over its seven.
\<close>

lemma searchMatches_eq:
  assumes "q \<noteq> []"
  shows "searchMatches f (toLowerCase q) =
           (if searchRaises q f then Inl TypeError else Inr (searchHit q f))"
proof -
  have "searchMatches f (toLowerCase q) =
      (if raisesAt q (searchFields f) then Inl TypeError
       else Inr (\<exists>v\<in>set (searchFields f). containsCI v q))"
    unfolding searchMatches_def by (rule orChain_fields [OF assms])
  moreover have "raisesAt q (searchFields f) = searchRaises q f"
    by (simp add: searchFields_def searchRaises_def js_or_def)
  moreover have "(\<exists>v\<in>set (searchFields f). containsCI v q) = searchHit q f"
    by (simp add: searchFields_def searchHit_def js_or_def)
  ultimately show ?thesis by simp
qed

lemma suggestMatches_eq:
  assumes "q \<noteq> []"
  shows "suggestMatches f (toLowerCase q) =
           (if suggestRaises q f then Inl TypeError else Inr (suggestHit q f))"
proof -
  have "suggestMatches f (toLowerCase q) =
      (if raisesAt q (suggestFields f) then Inl TypeError
       else Inr (\<exists>v\<in>set (suggestFields f). containsCI v q))"
    unfolding suggestMatches_def by (rule orChain_fields [OF assms])
  moreover have "raisesAt q (suggestFields f) = suggestRaises q f"
    by (simp add: suggestFields_def suggestRaises_def js_or_def)
  moreover have "(\<exists>v\<in>set (suggestFields f). containsCI v q) = suggestHit q f"
    by (auto simp: suggestFields_def suggestHit_def searchHit_def js_or_def)
  ultimately show ?thesis by simp
qed

text \<open>
  Both conditions read the key \<^verbatim>\<open>Empresa\<close> with its capital letter, and the second name
  of a pair only when the first is absent or falsy.
\<close>

lemma fields_as_read:
  "searchMatches \<lparr>fid = 20, properties = [(''name'', JStr ''abc''), (''nombre'', JStr ''xyz'')]\<rparr>
     ''xyz'' = Inr False \<and>
   suggestMatches \<lparr>fid = 20, properties = [(''name'', JStr ''abc''), (''nombre'', JStr ''xyz'')]\<rparr>
     ''xyz'' = Inr False \<and>
   searchMatches \<lparr>fid = 21, properties = [(''empresa'', JStr ''Entel'')]\<rparr> ''entel'' = Inr False \<and>
   suggestMatches \<lparr>fid = 21, properties = [(''empresa'', JStr ''Entel'')]\<rparr> ''entel'' = Inr False"
  by code_simp

section \<open>The type is not searched\<close>

text \<open>
  C2. The filter of the suggestions tests seven fields, the type among them (lines 1294 to
  1310); the condition of \<^verbatim>\<open>performSearch\<close> tests the six others and never reads the
  type (lines 1192 to 1206). The data centre of the examples contains the query
  \<^verbatim>\<open>data\<close> in its type and in no other field: the suggestions list it, and the search
  button with the same text finds nothing.
\<close>

theorem type_not_searched:
  "get dcSantiago ''type'' = JStr ''Data Center'' \<and>
   containsCI (get dcSantiago ''type'') ''data'' \<and>
   suggestMatches dcSantiago (toLowerCase (trim ''data'')) = Inr True \<and>
   searchMatches dcSantiago (toLowerCase ''data'') = Inr False \<and>
   suggestionsList (searchBoxKeyup (loadedState\<lparr>searchBoxValue := ''data''\<rparr>)) =
     [SuggestionItem dcSantiago] \<and>
   findFeature ''data'' loadedState = Inr None \<and>
   selectedFeature (searchButtonClick (loadedState\<lparr>searchBoxValue := ''data''\<rparr>)) = None \<and>
   panelContent (searchButtonClick (loadedState\<lparr>searchBoxValue := ''data''\<rparr>)) = []"
  by code_simp

section \<open>The scan of performSearch\<close>

lemma lastOr_append: "lastOr found (xs @ ys) = lastOr (lastOr found xs) ys"
  by (simp add: lastOr_def)

lemma lastOr_None: "lastOr None xs = lastOption xs"
  by (simp add: lastOr_def lastOption_def)

lemma scanFeatures_eq:
  assumes "q \<noteq> []"
  shows "scanFeatures q l fs found =
           (if \<exists>f\<in>set fs. searchRaises q f then Inl TypeError
            else Inr (lastOr found (filter (\<lambda>(f, l). searchHit q f) (map (\<lambda>f. (f, l)) fs))))"
proof (induction fs arbitrary: found)
  case Nil
  show ?case by (simp add: lastOr_def)
next
  case (Cons f fs)
  note m = searchMatches_eq [OF assms, of f]
  show ?case
  proof (cases "searchRaises q f")
    case True
    with m show ?thesis by simp
  next
    case False
    show ?thesis
    proof (cases "searchHit q f")
      case True
      with False m Cons show ?thesis by (simp add: lastOr_def)
    next
      case no: False
      with False m Cons show ?thesis by simp
    qed
  qed
qed

lemma scanLayers_eq:
  assumes "q \<noteq> []"
  shows "scanLayers q srcs ls found =
           (if \<exists>(f, l)\<in>set (concat (map (layerFeatures srcs) ls)). searchRaises q f
            then Inl TypeError
            else Inr (lastOr found
                   (filter (\<lambda>(f, l). searchHit q f) (concat (map (layerFeatures srcs) ls)))))"
proof (induction ls arbitrary: found)
  case Nil
  show ?case by (simp add: lastOr_def)
next
  case (Cons a ls)
  show ?case
  proof (cases a)
    case TileLayer
    with Cons show ?thesis by simp
  next
    case (VectorLayer l)
    have here: "(\<exists>(f, l')\<in>set (layerFeatures srcs a). searchRaises q f) \<longleftrightarrow>
        (\<exists>f\<in>set (sourceFeatures (srcs l)). searchRaises q f)"
      by (auto simp: VectorLayer)
    show ?thesis
    proof (cases "\<exists>f\<in>set (sourceFeatures (srcs l)). searchRaises q f")
      case True
      then have "scanFeatures q l (sourceFeatures (srcs l)) found = Inl TypeError"
        by (simp add: scanFeatures_eq [OF assms])
      moreover from True have "\<exists>(f, l')\<in>set (concat (map (layerFeatures srcs) (a # ls))). searchRaises q f"
        by (auto simp: VectorLayer)
      ultimately show ?thesis by (simp add: VectorLayer)
    next
      case False
      then have f: "scanFeatures q l (sourceFeatures (srcs l)) found =
          Inr (lastOr found (filter (\<lambda>(f, l). searchHit q f) (layerFeatures srcs a)))"
        by (simp add: scanFeatures_eq [OF assms] VectorLayer)
      from False have rest: "(\<exists>(f, l')\<in>set (concat (map (layerFeatures srcs) (a # ls))). searchRaises q f) \<longleftrightarrow>
          (\<exists>(f, l')\<in>set (concat (map (layerFeatures srcs) ls)). searchRaises q f)"
        by (auto simp: VectorLayer)
      show ?thesis
        by (simp only: rest) (simp add: VectorLayer f Cons.IH lastOr_append)
    qed
  qed
qed

lemma findFeature_eq:
  assumes "q \<noteq> []"
  shows "findFeature q s =
           (if \<exists>(f, l)\<in>set (scanOrder (sources s)). searchRaises q f then Inl TypeError
            else Inr (lastOption (filter (\<lambda>(f, l). searchHit q f) (scanOrder (sources s)))))"
  by (simp add: findFeature_def scanOrder_def scanLayers_eq [OF assms] lastOr_None)

lemma scanOrder_layers:
  "scanOrder srcs =
     map (\<lambda>f. (f, CableLayer)) (sourceFeatures (srcs CableLayer)) @
     map (\<lambda>f. (f, LandCableLayer)) (sourceFeatures (srcs LandCableLayer)) @
     map (\<lambda>f. (f, PointLayer)) (sourceFeatures (srcs PointLayer)) @
     map (\<lambda>f. (f, DataCenterLayer)) (sourceFeatures (srcs DataCenterLayer))"
  by (simp add: scanOrder_def mapLayers_def)

lemma selectedFeature_closeLayerControls [simp]:
  "selectedFeature (closeLayerControls s) = selectedFeature s"
  by (simp add: closeLayerControls_def)

lemma selectedFeature_openPanel [simp]: "selectedFeature (openPanel f s) = Some f"
  by (simp add: openPanel_def)

lemma selectedFeature_requestFit [simp]:
  "selectedFeature (requestFit z f l s) = selectedFeature s"
  by (simp add: requestFit_def split: sum.split)

text \<open>
  Both callers of \<^verbatim>\<open>performSearch\<close> hide the suggestion list once it has returned, so
  the message it appends when nothing is found is hidden in the same call.
\<close>

lemma callers_hide_suggestions:
  "(\<not> raised s (performSearch (trim (searchBoxValue s)) s) \<longrightarrow>
      suggestionsDisplay (searchButtonClick s) = DisplayNone) \<and>
   (raised s (performSearch (trim (searchBoxValue s)) s) \<longrightarrow>
      searchButtonClick s = performSearch (trim (searchBoxValue s)) s) \<and>
   (SuggestionItem f \<in> set (suggestionsList s) \<and>
    \<not> raised (s\<lparr>searchBoxValue := v\<rparr>) (performSearch (trim v) (s\<lparr>searchBoxValue := v\<rparr>)) \<and>
    v = domString (js_or (get f ''name'') (get f ''nombre'')) \<longrightarrow>
      suggestionsDisplay (suggestionClick f s) = DisplayNone)"
  by (auto simp: searchButtonClick_def suggestionClick_def Let_def)

text \<open>
  C1. \<^verbatim>\<open>performSearch\<close> does not read \<open>allFeatures\<close>: it scans the vector layers of the map
  in the order of the map (cables, land cables, points, data centres), each source in its
  own order. For a query that is not empty: when the condition raises on a feature of the
  scan, the scan ends there, nothing is found and \<^verbatim>\<open>performSearch\<close> is left with the
  exception; otherwise the scan returns the last feature whose condition holds, with its
  layer. The feature found becomes the selection; when nothing is found, the selection,
  the panel and the styles stay as they are and \<^verbatim>\<open>performSearch\<close> appends its message
  to the suggestion list.
\<close>

theorem performSearch_last_in_map_order:
  assumes "q \<noteq> []"
  shows "scanOrder (sources s) =
           map (\<lambda>f. (f, CableLayer)) (sourceFeatures (sources s CableLayer)) @
           map (\<lambda>f. (f, LandCableLayer)) (sourceFeatures (sources s LandCableLayer)) @
           map (\<lambda>f. (f, PointLayer)) (sourceFeatures (sources s PointLayer)) @
           map (\<lambda>f. (f, DataCenterLayer)) (sourceFeatures (sources s DataCenterLayer)) \<and>
         ((\<exists>(f, l)\<in>set (scanOrder (sources s)). searchRaises q f) \<longrightarrow>
            findFeature q s = Inl TypeError \<and>
            performSearch q s = s\<lparr>uncaught := uncaught s @ [TypeError]\<rparr>) \<and>
         (\<not> (\<exists>(f, l)\<in>set (scanOrder (sources s)). searchRaises q f) \<longrightarrow>
            findFeature q s =
              Inr (lastOption (filter (\<lambda>(f, l). searchHit q f) (scanOrder (sources s))))) \<and>
         (findFeature q s = Inr (Some (g, l')) \<longrightarrow>
            performSearch q s = requestFit searchMaxZoom g l' (openPanel g (resetFeatureStyle s)) \<and>
            selectedFeature (performSearch q s) = Some g) \<and>
         (findFeature q s = Inr None \<longrightarrow>
            performSearch q s =
              s\<lparr>suggestionsList :=
                  suggestionsList s @ [NoResultsMessage ''No matches were found.''],
                suggestionsDisplay := DisplayBlock\<rparr>)"
  using assms scanOrder_layers [of "sources s"] findFeature_eq [OF assms, of s]
  by (simp add: performSearch_def)

theorem performSearch_last_in_map_order_witness:
  "findFeature ''cable'' loadedState = Inr (Some (landCableA, LandCableLayer)) \<and>
   selectedFeature (performSearch ''cable'' loadedState) = Some landCableA \<and>
   findFeature ''zzz'' loadedState = Inr None \<and>
   selectedFeature (performSearch ''zzz'' loadedState) = None \<and>
   searchRaises ''valpar'' numberedCable \<and>
   findFeature ''valpar'' numberedState = Inl TypeError \<and>
   uncaught (performSearch ''valpar'' numberedState) = [TypeError]"
proof -
  have ok: "\<not> (\<exists>(f, l)\<in>set (scanOrder (sources loadedState)). searchRaises ''cable'' f)"
    "\<not> (\<exists>(f, l)\<in>set (scanOrder (sources loadedState)). searchRaises ''zzz'' f)"
    by code_simp+
  have raises: "\<exists>(f, l)\<in>set (scanOrder (sources numberedState)). searchRaises ''valpar'' f"
    and one: "searchRaises ''valpar'' numberedCable"
    by code_simp+
  have ne: "''cable'' \<noteq> []" "''zzz'' \<noteq> []" "''valpar'' \<noteq> []" by simp_all
  have hit: "lastOption (filter (\<lambda>(f, l). searchHit ''cable'' f) (scanOrder (sources loadedState)))
      = Some (landCableA, LandCableLayer)"
    by code_simp
  have miss: "lastOption (filter (\<lambda>(f, l). searchHit ''zzz'' f) (scanOrder (sources loadedState)))
      = None"
    by code_simp
  have empty: "selectedFeature loadedState = None" "uncaught numberedState = []" by code_simp+
  from performSearch_last_in_map_order [OF ne(1), of loadedState landCableA LandCableLayer]
       ok(1) hit
  have a: "findFeature ''cable'' loadedState = Inr (Some (landCableA, LandCableLayer)) \<and>
      selectedFeature (performSearch ''cable'' loadedState) = Some landCableA"
    by simp
  from performSearch_last_in_map_order [OF ne(2), of loadedState] ok(2) miss empty
  have b: "findFeature ''zzz'' loadedState = Inr None \<and>
      selectedFeature (performSearch ''zzz'' loadedState) = None"
    by simp
  from performSearch_last_in_map_order [OF ne(3), of numberedState] raises empty
  have c: "findFeature ''valpar'' numberedState = Inl TypeError \<and>
      uncaught (performSearch ''valpar'' numberedState) = [TypeError]"
    by simp
  from a b c one show ?thesis by blast
qed

text \<open>
  With the sources loaded in the order of \<open>layersToSearch\<close>, the store ends with the
  cable and the scan of the map ends with the land cable: both are named
  \<^verbatim>\<open>Cable A\<close>, the last match of the store is the first and \<^verbatim>\<open>performSearch\<close> selects
  the second. When the cable source holds a cable whose name is a number, the condition
  raises on it: the landing point matches the query and nothing is selected. The
  message for a query without match is hidden by the click handler that asked for the
  search. And the empty query, which every name contains, selects nothing.
\<close>

theorem search_ignores_store_order:
  "allFeatures loadedState = [valparaiso, dcSantiago, landCableA, cableA] \<and>
   storeLastMatch ''cable'' (allFeatures loadedState) = Some cableA \<and>
   findFeature ''cable'' loadedState = Inr (Some (landCableA, LandCableLayer)) \<and>
   selectedFeature (performSearch ''cable'' loadedState) = Some landCableA \<and>
   fid landCableA \<noteq> fid cableA \<and>
   storeLastMatch ''valpar'' (allFeatures numberedState) = Some valparaiso \<and>
   findFeature ''valpar'' numberedState = Inl TypeError \<and>
   selectedFeature (performSearch ''valpar'' numberedState) = None \<and>
   findFeature ''zzz'' loadedState = Inr None \<and>
   suggestionsList (searchButtonClick (loadedState\<lparr>searchBoxValue := ''zzz''\<rparr>)) =
     [NoResultsMessage ''No matches were found.''] \<and>
   suggestionsDisplay (searchButtonClick (loadedState\<lparr>searchBoxValue := ''zzz''\<rparr>)) = DisplayNone \<and>
   storeLastMatch [] (allFeatures loadedState) = Some cableA \<and>
   selectedFeature (performSearch [] loadedState) = None \<and>
   alerts (performSearch [] loadedState) = [emptyTermAlert]"
  by code_simp

section \<open>The suggestion list\<close>

lemma filterMatching_eq:
  assumes "q \<noteq> []"
  shows "filterMatching (toLowerCase q) store =
           (if \<exists>f\<in>set store. suggestRaises q f then Inl TypeError
            else Inr (filter (suggestHit q) store))"
proof (induction store)
  case Nil
  show ?case by simp
next
  case (Cons f fs)
  note m = suggestMatches_eq [OF assms, of f]
  show ?case
  proof (cases "suggestRaises q f")
    case True
    with m show ?thesis by simp
  next
    case False
    with m Cons show ?thesis by simp
  qed
qed

lemma featureId_suggestionKey: "featureId f = suggestionKey f"
  by (simp add: featureId_def suggestionKey_def js_or_def)

lemma addSuggestions_subseq: "subseq (addSuggestions A fs) fs"
  by (induction fs arbitrary: A) auto

lemma addSuggestions_subset: "set (addSuggestions A fs) \<subseteq> set fs"
  by (induction fs arbitrary: A) auto

lemma addSuggestions_keys:
  "suggestionKey ` set (addSuggestions A fs) = suggestionKey ` set fs - A"
  by (induction fs arbitrary: A) (auto simp: featureId_suggestionKey)

lemma addSuggestions_distinct: "distinct (map suggestionKey (addSuggestions A fs))"
proof (induction fs arbitrary: A)
  case Nil
  show ?case by simp
next
  case (Cons f fs)
  have "suggestionKey f \<notin> suggestionKey ` set (addSuggestions (insert (suggestionKey f) A) fs)"
    by (simp add: addSuggestions_keys)
  with Cons show ?case by (simp add: featureId_suggestionKey)
qed

lemma addSuggestions_first:
  "r \<in> set (addSuggestions A fs) \<Longrightarrow>
   find (\<lambda>g. suggestionKey g = suggestionKey r) fs = Some r"
proof (induction fs arbitrary: A)
  case Nil
  then show ?case by simp
next
  case (Cons f fs)
  show ?case
  proof (cases "suggestionKey f \<in> A")
    case True
    with Cons.prems have r: "r \<in> set (addSuggestions A fs)"
      by (simp add: featureId_suggestionKey)
    then have "suggestionKey r \<in> suggestionKey ` set fs - A" using addSuggestions_keys by blast
    with True have "suggestionKey f \<noteq> suggestionKey r" by auto
    with Cons.IH [OF r] show ?thesis by simp
  next
    case False
    show ?thesis
    proof (cases "r = f")
      case True
      then show ?thesis by simp
    next
      case ne: False
      with False Cons.prems have r: "r \<in> set (addSuggestions (insert (suggestionKey f) A) fs)"
        by (simp add: featureId_suggestionKey)
      then have "suggestionKey r \<in> suggestionKey ` set fs - insert (suggestionKey f) A"
        using addSuggestions_keys by blast
      then have "suggestionKey f \<noteq> suggestionKey r" by auto
      with Cons.IH [OF r] show ?thesis by simp
    qed
  qed
qed

text \<open>
  C5. For a text of the search box whose trimmed form \<open>q\<close> is not empty: when the
  condition of the filter raises on a feature of the store, the filter is left with the
  exception and the \<^verbatim>\<open>keyup\<close> handler leaves the list empty. Otherwise the handler lists
  features \<open>r\<close> (or the message that nothing was found, when \<open>r\<close> is empty) such that:
  \<open>r\<close> is taken from the store in the order of the store; every feature of \<open>r\<close> matches
  \<open>q\<close>; no two features of \<open>r\<close> have the same key, the key being the value of \<^verbatim>\<open>name\<close>,
  or the value of \<^verbatim>\<open>id\<close> when \<^verbatim>\<open>name\<close> is absent or falsy; every key of a matching
  feature of the store is the key of a feature of \<open>r\<close>; and each feature of \<open>r\<close> is the
  first matching feature of the store with its key.
\<close>

theorem suggestions_deduplicated:
  assumes "trim (searchBoxValue s) \<noteq> []"
  shows "((\<exists>f\<in>set (allFeatures s). suggestRaises (trim (searchBoxValue s)) f) \<longrightarrow>
            suggest (toLowerCase (trim (searchBoxValue s))) (allFeatures s) = Inl TypeError \<and>
            searchBoxKeyup s = s\<lparr>suggestionsList := [], uncaught := uncaught s @ [TypeError]\<rparr>) \<and>
         (\<not> (\<exists>f\<in>set (allFeatures s). suggestRaises (trim (searchBoxValue s)) f) \<longrightarrow>
            (\<exists>r. suggest (toLowerCase (trim (searchBoxValue s))) (allFeatures s) = Inr r \<and>
               suggestionsList (searchBoxKeyup s) =
                 (if r = []
                  then [NoResultsMessage (noResultsText (toLowerCase (trim (searchBoxValue s))))]
                  else map SuggestionItem r) \<and>
               subseq r (allFeatures s) \<and>
               distinct (map suggestionKey r) \<and>
               set r \<subseteq> {f \<in> set (allFeatures s). suggestHit (trim (searchBoxValue s)) f} \<and>
               suggestionKey ` set r =
                 suggestionKey ` {f \<in> set (allFeatures s). suggestHit (trim (searchBoxValue s)) f} \<and>
               (\<forall>f\<in>set r. find (\<lambda>g. suggestionKey g = suggestionKey f)
                              (filter (suggestHit (trim (searchBoxValue s))) (allFeatures s)) =
                            Some f)))"
proof -
  let ?q = "trim (searchBoxValue s)"
  let ?m = "filter (suggestHit ?q) (allFeatures s)"
  let ?r = "addSuggestions {} ?m"
  note fm = filterMatching_eq [OF assms, of "allFeatures s"]
  have raising: "suggest (toLowerCase ?q) (allFeatures s) = Inl TypeError \<and>
      searchBoxKeyup s = s\<lparr>suggestionsList := [], uncaught := uncaught s @ [TypeError]\<rparr>"
    if "\<exists>f\<in>set (allFeatures s). suggestRaises ?q f"
    using that fm assms by (simp add: suggest_def searchBoxKeyup_def Let_def)
  have returning: "\<exists>r. suggest (toLowerCase ?q) (allFeatures s) = Inr r \<and>
      suggestionsList (searchBoxKeyup s) =
        (if r = [] then [NoResultsMessage (noResultsText (toLowerCase ?q))]
         else map SuggestionItem r) \<and>
      subseq r (allFeatures s) \<and>
      distinct (map suggestionKey r) \<and>
      set r \<subseteq> {f \<in> set (allFeatures s). suggestHit ?q f} \<and>
      suggestionKey ` set r = suggestionKey ` {f \<in> set (allFeatures s). suggestHit ?q f} \<and>
      (\<forall>f\<in>set r. find (\<lambda>g. suggestionKey g = suggestionKey f) ?m = Some f)"
    if no: "\<not> (\<exists>f\<in>set (allFeatures s). suggestRaises ?q f)"
  proof -
    from no fm have fm': "filterMatching (toLowerCase ?q) (allFeatures s) = Inr ?m" by simp
    then have sg: "suggest (toLowerCase ?q) (allFeatures s) = Inr ?r"
      by (simp add: suggest_def)
    have empty: "?r = [] \<longleftrightarrow> ?m = []"
      by (cases ?m) simp_all
    have list: "suggestionsList (searchBoxKeyup s) =
        (if ?r = [] then [NoResultsMessage (noResultsText (toLowerCase ?q))]
         else map SuggestionItem ?r)"
      using assms fm' empty by (simp add: searchBoxKeyup_def Let_def)
    have sub: "subseq ?r ?m" by (rule addSuggestions_subseq)
    have "subseq ?m (allFeatures s)" by simp
    with sub have sub2: "subseq ?r (allFeatures s)" by (rule subseq_order.order_trans)
    have mem: "set ?r \<subseteq> {f \<in> set (allFeatures s). suggestHit ?q f}"
      using addSuggestions_subset [of "{}" ?m] by auto
    have keys: "suggestionKey ` set ?r = suggestionKey ` {f \<in> set (allFeatures s). suggestHit ?q f}"
      by (simp add: addSuggestions_keys)
    have first: "\<forall>f\<in>set ?r. find (\<lambda>g. suggestionKey g = suggestionKey f) ?m = Some f"
      by (simp add: addSuggestions_first)
    from sg list sub2 addSuggestions_distinct [of "{}" ?m] mem keys first show ?thesis by blast
  qed
  from raising returning show ?thesis by blast
qed

theorem suggestions_deduplicated_witness:
  "trim (searchBoxValue (loadedState\<lparr>searchBoxValue := '' Cable A ''\<rparr>)) = ''Cable A'' \<and>
   suggestionKey landCableA = JStr ''Cable A'' \<and> suggestionKey cableA = JStr ''Cable A'' \<and>
   suggest ''cable a'' (allFeatures loadedState) = Inr [landCableA] \<and>
   suggestionsList (searchBoxKeyup (loadedState\<lparr>searchBoxValue := '' Cable A ''\<rparr>)) =
     [SuggestionItem landCableA] \<and>
   suggest ''a'' (allFeatures loadedState) = Inr [valparaiso, dcSantiago, landCableA] \<and>
   suggestionsList (searchBoxKeyup (loadedState\<lparr>searchBoxValue := ''a''\<rparr>)) =
     [SuggestionItem valparaiso, SuggestionItem dcSantiago, SuggestionItem landCableA] \<and>
   suggestRaises ''valpar'' numberedCable \<and>
   suggest ''valpar'' (allFeatures numberedState) = Inl TypeError \<and>
   suggestionsList (searchBoxKeyup (numberedState\<lparr>searchBoxValue := ''valpar''\<rparr>)) = []"
proof -
  let ?s = "loadedState\<lparr>searchBoxValue := '' Cable A ''\<rparr>"
  let ?s' = "loadedState\<lparr>searchBoxValue := ''a''\<rparr>"
  let ?n = "numberedState\<lparr>searchBoxValue := ''valpar''\<rparr>"
  have tr: "trim (searchBoxValue ?s) = ''Cable A''" "trim (searchBoxValue ?s') = ''a''"
    "trim (searchBoxValue ?n) = ''valpar''"
    by code_simp+
  have ne: "trim (searchBoxValue ?s) \<noteq> []" "trim (searchBoxValue ?s') \<noteq> []"
    "trim (searchBoxValue ?n) \<noteq> []"
    by (simp_all only: tr) simp_all
  have ok: "\<not> (\<exists>f\<in>set (allFeatures ?s). suggestRaises ''Cable A'' f)"
    "\<not> (\<exists>f\<in>set (allFeatures ?s'). suggestRaises ''a'' f)"
    by code_simp+
  have raises: "\<exists>f\<in>set (allFeatures ?n). suggestRaises ''valpar'' f"
    and one: "suggestRaises ''valpar'' numberedCable"
    by code_simp+
  have lw: "toLowerCase ''Cable A'' = ''cable a''" "toLowerCase ''a'' = ''a''"
    "toLowerCase ''valpar'' = ''valpar''"
    by code_simp+
  have keys: "suggestionKey landCableA = JStr ''Cable A''" "suggestionKey cableA = JStr ''Cable A''"
    by code_simp+
  have sg: "suggest ''cable a'' (allFeatures loadedState) = Inr [landCableA]"
    "suggest ''a'' (allFeatures loadedState) = Inr [valparaiso, dcSantiago, landCableA]"
    by code_simp+
  have st: "allFeatures ?s = allFeatures loadedState" "allFeatures ?s' = allFeatures loadedState"
    "allFeatures ?n = allFeatures numberedState"
    by simp_all
  from suggestions_deduplicated [OF ne(1)] ok(1) tr(1) lw(1) sg(1) st(1)
  have a: "suggestionsList (searchBoxKeyup ?s) = [SuggestionItem landCableA]" by auto
  from suggestions_deduplicated [OF ne(2)] ok(2) tr(2) lw(2) sg(2) st(2)
  have b: "suggestionsList (searchBoxKeyup ?s') =
      [SuggestionItem valparaiso, SuggestionItem dcSantiago, SuggestionItem landCableA]"
    by auto
  from suggestions_deduplicated [OF ne(3)] raises tr(3) lw(3) st(3)
  have c: "suggest ''valpar'' (allFeatures numberedState) = Inl TypeError \<and>
      suggestionsList (searchBoxKeyup ?n) = []"
    by auto
  from tr(1) keys sg a b one c show ?thesis by blast
qed

text \<open>
  The two ducts have the same name, the empty string, and both are listed: their keys
  are their identifiers. When the store holds a cable whose name is a number, the
  condition raises on it: the landing point matches the query and nothing is listed. And
  for the empty query, which every name contains, nothing is listed.
\<close>

theorem suggestions_key_not_name_alone:
  "get ductA ''name'' = JStr [] \<and> get ductB ''name'' = JStr [] \<and>
   suggestHit ''ducto'' ductA \<and> suggestHit ''ducto'' ductB \<and>
   suggest ''ducto'' (allFeatures ductState) = Inr [ductA, ductB] \<and>
   suggestionsList (searchBoxKeyup (ductState\<lparr>searchBoxValue := ''ducto''\<rparr>)) =
     [SuggestionItem ductA, SuggestionItem ductB] \<and>
   suggestHit ''valpar'' valparaiso \<and> valparaiso \<in> set (allFeatures numberedState) \<and>
   suggest ''valpar'' (allFeatures numberedState) = Inl TypeError \<and>
   suggestionsList (searchBoxKeyup (numberedState\<lparr>searchBoxValue := ''valpar''\<rparr>)) = [] \<and>
   suggestHit [] valparaiso \<and> valparaiso \<in> set (allFeatures loadedState) \<and>
   suggestionsList (searchBoxKeyup (loadedState\<lparr>searchBoxValue := []\<rparr>)) = [] \<and>
   suggestionsDisplay (searchBoxKeyup (loadedState\<lparr>searchBoxValue := []\<rparr>)) = DisplayNone"
  by code_simp

section \<open>Styles and selection under the handlers\<close>

lemma highlighted_resetFeatureStyle_eq:
  "highlighted (resetFeatureStyle s) = highlighted s - selectedIds s"
  by (simp add: highlighted_def selectedIds_def featureStyle_resetFeatureStyle split: option.split)

lemma highlighted_resetFeatureStyle:
  "highlightExclusive s \<Longrightarrow> highlighted (resetFeatureStyle s) = {}"
  by (auto simp: highlighted_resetFeatureStyle_eq highlightExclusive_def)

lemma featureStyle_closeLayerControls [simp]: "featureStyle (closeLayerControls s) = featureStyle s"
  by (simp add: closeLayerControls_def)

lemma featureStyle_openPanel [simp]: "featureStyle (openPanel f s) = featureStyle s"
  by (simp add: openPanel_def)

lemma featureStyle_requestFit [simp]: "featureStyle (requestFit z f l s) = featureStyle s"
  by (simp add: requestFit_def split: sum.split)

lemma featureStyle_mapClick: "featureStyle (mapClick hits s) = featureStyle (resetFeatureStyle s)"
  by (simp add: mapClick_def Let_def featureStyle_resetFeatureStyle split: option.split)

lemma selectedFeature_mapClick:
  "selectedFeature (mapClick hits s) = (if hits = [] then None else Some (fst (last hits)))"
  by (simp add: mapClick_def Let_def)

lemma featureStyle_performSearch:
  "featureStyle (performSearch q s) = featureStyle s \<and> selectedFeature (performSearch q s) = selectedFeature s
   \<or> featureStyle (performSearch q s) = featureStyle (resetFeatureStyle s) \<and>
      (\<exists>f l. q \<noteq> [] \<and> findFeature q s = Inr (Some (f, l)) \<and> selectedFeature (performSearch q s) = Some f)"
  by (auto simp: performSearch_def split: sum.split option.split)

lemma highlightExclusive_reset_like:
  assumes "highlightExclusive s" "featureStyle s' = featureStyle (resetFeatureStyle s)"
  shows "highlightExclusive s'"
proof -
  have "highlighted s' = highlighted (resetFeatureStyle s)" using assms(2) by (simp add: highlighted_def)
  with assms(1) show ?thesis by (simp add: highlighted_resetFeatureStyle highlightExclusive_def)
qed

lemma highlightExclusive_same:
  assumes "highlightExclusive s" "featureStyle s' = featureStyle s" "selectedFeature s' = selectedFeature s"
  shows "highlightExclusive s'"
  using assms by (simp add: highlightExclusive_def highlighted_def selectedIds_def)

lemma highlightExclusive_resetFeatureStyle:
  "highlightExclusive s \<Longrightarrow> highlightExclusive (resetFeatureStyle s)"
  by (rule highlightExclusive_reset_like) simp_all

lemma highlightExclusive_mapClick: "highlightExclusive s \<Longrightarrow> highlightExclusive (mapClick hits s)"
  by (rule highlightExclusive_reset_like) (simp_all add: featureStyle_mapClick)

lemma highlightExclusive_performSearch:
  assumes "highlightExclusive s" shows "highlightExclusive (performSearch q s)"
  using featureStyle_performSearch [of q s] assms
  by (auto intro: highlightExclusive_same highlightExclusive_reset_like)

lemma selectedFeature_applyHighlight [simp]:
  "selectedFeature (applyHighlight l s) = selectedFeature s"
  by (simp add: applyHighlight_eq split: option.split sum.split)

lemma moveendOnce_applyHighlight [simp]: "moveendOnce (applyHighlight l s) = moveendOnce s"
  by (simp add: applyHighlight_eq split: option.split sum.split)

lemma highlightExclusive_applyHighlight:
  "highlightExclusive s \<Longrightarrow> highlightExclusive (applyHighlight l s)"
  by (auto simp: applyHighlight_eq highlightExclusive_def highlighted_def selectedIds_def
      split: option.splits sum.splits if_splits)

lemma highlightExclusive_dispatchMoveend:
  "highlightExclusive s \<Longrightarrow> highlightExclusive (dispatchMoveend ls s)"
proof (induction ls arbitrary: s)
  case Nil
  then show ?case by simp
next
  case (Cons l ls)
  from Cons.prems have "highlightExclusive (s\<lparr>moveendOnce := ls\<rparr>)"
    by (rule highlightExclusive_same) simp_all
  then have h: "highlightExclusive (applyHighlight l (s\<lparr>moveendOnce := ls\<rparr>))"
    by (rule highlightExclusive_applyHighlight)
  then have "highlightExclusive (dispatchMoveend ls (applyHighlight l (s\<lparr>moveendOnce := ls\<rparr>)))"
    by (rule Cons.IH)
  with h show ?case by (simp add: Let_def)
qed

lemma selectedFeature_dispatchMoveend [simp]:
  "selectedFeature (dispatchMoveend ls s) = selectedFeature s"
  by (induction ls arbitrary: s) (simp_all add: Let_def)

lemma highlightExclusive_moveEnd: "highlightExclusive s \<Longrightarrow> highlightExclusive (moveEnd s)"
  unfolding moveEnd_def by (rule highlightExclusive_dispatchMoveend)

lemma selectedFeature_moveEnd [simp]: "selectedFeature (moveEnd s) = selectedFeature s"
  by (simp add: moveEnd_def)

lemma highlightExclusive_documentClickPanels:
  assumes h: "highlightExclusive s"
  shows "highlightExclusive (documentClickPanels a b c s)"
proof (cases "isClickOnFeature s")
  case True
  have "highlightExclusive (s\<lparr>isClickOnFeature := False\<rparr>)"
    using h by (rule highlightExclusive_same) simp_all
  with True show ?thesis by (simp add: documentClickPanels_def)
next
  case False
  define s1 where "s1 = (if layerControlsOpen s \<and> \<not> a \<and> \<not> b
                   then s\<lparr>layerControlsOpen := False, toggleButtonDisplay := DisplayBlock\<rparr>
                   else s)"
  have h1: "highlightExclusive s1"
    using h by (rule highlightExclusive_same) (simp_all add: s1_def)
  then have "highlightExclusive (s1\<lparr>infoPanelOpen := False\<rparr>)"
    by (rule highlightExclusive_same) simp_all
  then have h2: "highlightExclusive (resetFeatureStyle (s1\<lparr>infoPanelOpen := False\<rparr>))"
    by (rule highlightExclusive_resetFeatureStyle)
  have "documentClickPanels a b c s =
      (if infoPanelOpen s1 \<and> \<not> c then resetFeatureStyle (s1\<lparr>infoPanelOpen := False\<rparr>) else s1)"
    using False by (simp add: documentClickPanels_def s1_def Let_def)
  with h1 h2 show ?thesis by simp
qed

lemma highlightExclusive_searchButtonClick:
  assumes "highlightExclusive s"
  shows "highlightExclusive (searchButtonClick s)"
proof -
  let ?s1 = "performSearch (trim (searchBoxValue s)) s"
  from assms have h: "highlightExclusive ?s1" by (rule highlightExclusive_performSearch)
  then have "highlightExclusive (?s1\<lparr>suggestionsDisplay := DisplayNone\<rparr>)"
    by (rule highlightExclusive_same) simp_all
  with h show ?thesis by (simp add: searchButtonClick_def Let_def)
qed

lemma highlightExclusive_suggestionClick:
  assumes "highlightExclusive s"
  shows "highlightExclusive (suggestionClick f s)"
proof -
  let ?s1 = "s\<lparr>searchBoxValue := domString (js_or (get f ''name'') (get f ''nombre''))\<rparr>"
  let ?s2 = "performSearch (trim (searchBoxValue ?s1)) ?s1"
  from assms have "highlightExclusive ?s1" by (rule highlightExclusive_same) simp_all
  then have h: "highlightExclusive ?s2" by (rule highlightExclusive_performSearch)
  then have "highlightExclusive (?s2\<lparr>suggestionsDisplay := DisplayNone\<rparr>)"
    by (rule highlightExclusive_same) simp_all
  with h assms show ?thesis by (simp add: suggestionClick_def Let_def)
qed

lemma highlightExclusive_step: "highlightExclusive s \<Longrightarrow> highlightExclusive (step s e)"
proof (cases e)
  case (MapClick hits)
  assume "highlightExclusive s"
  then show ?thesis by (simp add: MapClick highlightExclusive_mapClick)
next
  case MoveEnd
  assume "highlightExclusive s"
  then show ?thesis by (simp add: MoveEnd highlightExclusive_moveEnd)
next
  case SearchButtonClick
  assume "highlightExclusive s"
  then show ?thesis by (simp add: SearchButtonClick highlightExclusive_searchButtonClick)
next
  case SearchBoxKeyup
  assume "highlightExclusive s"
  then show ?thesis
    by (simp add: SearchBoxKeyup searchBoxKeyup_def Let_def highlightExclusive_def highlighted_def
        selectedIds_def split: sum.split)
next
  case SearchBoxClick
  assume "highlightExclusive s"
  then show ?thesis
    by (simp add: SearchBoxClick searchBoxClick_def highlightExclusive_def highlighted_def selectedIds_def)
next
  case (SuggestionClick f)
  assume "highlightExclusive s"
  then show ?thesis by (simp add: SuggestionClick highlightExclusive_suggestionClick)
next
  case ClosePanelClick
  assume "highlightExclusive s"
  then have "highlightExclusive (s\<lparr>infoPanelOpen := False\<rparr>)"
    by (simp add: highlightExclusive_def highlighted_def selectedIds_def)
  then show ?thesis by (simp add: ClosePanelClick closePanelClick_def highlightExclusive_resetFeatureStyle)
next
  case ToggleLayerControlsClick
  assume "highlightExclusive s"
  then show ?thesis
    by (simp add: ToggleLayerControlsClick toggleLayerControlsClick_def Let_def highlightExclusive_def
        highlighted_def selectedIds_def)
next
  case (DocumentClickPanels a b c)
  assume "highlightExclusive s"
  then show ?thesis by (simp add: DocumentClickPanels highlightExclusive_documentClickPanels)
next
  case (DocumentClickSearch a)
  assume "highlightExclusive s"
  then show ?thesis
    by (simp add: DocumentClickSearch documentClickSearch_def highlightExclusive_def highlighted_def
        selectedIds_def)
next
  case (SourceChange l)
  assume "highlightExclusive s"
  then show ?thesis
    by (simp add: SourceChange sourceChange_def pushFeatures_def highlightExclusive_def
        highlighted_def selectedIds_def)
next
  case (SourceLoaded l src)
  assume "highlightExclusive s"
  then show ?thesis
    by (simp add: SourceLoaded highlightExclusive_def highlighted_def selectedIds_def)
next
  case (BoxInput v)
  assume "highlightExclusive s"
  then show ?thesis by (simp add: BoxInput highlightExclusive_def highlighted_def selectedIds_def)
next
  case (Layout w h pw)
  assume "highlightExclusive s"
  then show ?thesis by (simp add: Layout highlightExclusive_def highlighted_def selectedIds_def)
next
  case (ViewChanged z)
  assume "highlightExclusive s"
  then show ?thesis by (simp add: ViewChanged highlightExclusive_def highlighted_def selectedIds_def)
qed

lemma highlightExclusive_run: "highlightExclusive s \<Longrightarrow> highlightExclusive (run s es)"
  unfolding run_def by (induction es arbitrary: s) (simp_all add: highlightExclusive_step)

lemma featureStyle_pushFeatures [simp]: "featureStyle (pushFeatures l s) = featureStyle s"
  by (simp add: pushFeatures_def)

lemma selectedFeature_pushFeatures [simp]: "selectedFeature (pushFeatures l s) = selectedFeature s"
  by (simp add: pushFeatures_def)

lemma highlightExclusive_initialState: "highlightExclusive (initialState srcs w h pw)"
proof -
  have "highlightExclusive (blankState srcs w h pw)"
    by (simp add: blankState_def highlightExclusive_def highlighted_def)
  moreover have "\<And>s ls. highlightExclusive s \<Longrightarrow> highlightExclusive (foldl (\<lambda>s' l. pushFeatures l s') s ls)"
  proof -
    fix s :: state and ls
    show "highlightExclusive s \<Longrightarrow> highlightExclusive (foldl (\<lambda>s' l. pushFeatures l s') s ls)"
    proof (induction ls arbitrary: s)
      case Nil
      then show ?case by simp
    next
      case (Cons a ls)
      from Cons.prems have "highlightExclusive (pushFeatures a s)"
        by (rule highlightExclusive_same) simp_all
      then show ?case by (simp add: Cons.IH)
    qed
  qed
  ultimately show ?thesis by (simp add: initialState_def initializeSearchFeatures_def)
qed

lemma highlightExclusive_card: "highlightExclusive s \<Longrightarrow> card (highlighted s) \<le> 1"
proof -
  assume "highlightExclusive s"
  then have sub: "highlighted s \<subseteq> selectedIds s" by (simp add: highlightExclusive_def)
  have fin: "finite (selectedIds s)" and c: "card (selectedIds s) \<le> 1"
    by (simp_all add: selectedIds_def split: option.split)
  from sub fin have "card (highlighted s) \<le> card (selectedIds s)" by (rule card_mono[rotated])
  with c show ?thesis by simp
qed

section \<open>At most one feature is highlighted\<close>

text \<open>
  C3. In every state the page reaches from its start by any sequence of events, a
  feature that carries a style of its own is the selected feature, so at most one feature
  is highlighted. \<^verbatim>\<open>resetFeatureStyle\<close> leaves no feature highlighted and nothing selected;
  the map click on a feature and \<^verbatim>\<open>performSearch\<close> on a match (which the click on a
  suggestion calls) run it first and then store the new feature, so that after them no
  feature is highlighted and the new one is selected; and the next \<^verbatim>\<open>moveend\<close> can
  highlight the new selection only.
\<close>

theorem highlight_exclusive:
  assumes "s = run (initialState srcs w h pw) es"
  shows "highlightExclusive s \<and> card (highlighted s) \<le> 1 \<and>
         highlighted (resetFeatureStyle s) = {} \<and> selectedFeature (resetFeatureStyle s) = None \<and>
         (hits \<noteq> [] \<longrightarrow>
            mapClick hits s =
              requestFit clickMaxZoom (fst (last hits)) (snd (last hits))
                (openPanel (fst (last hits)) (resetFeatureStyle s)) \<and>
            highlighted (mapClick hits s) = {} \<and>
            selectedFeature (mapClick hits s) = Some (fst (last hits)) \<and>
            highlighted (moveEnd (mapClick hits s)) \<subseteq> {fid (fst (last hits))}) \<and>
         (q \<noteq> [] \<and> findFeature q s = Inr (Some (g, l)) \<longrightarrow>
            performSearch q s =
              requestFit searchMaxZoom g l (openPanel g (resetFeatureStyle s)) \<and>
            highlighted (performSearch q s) = {} \<and>
            selectedFeature (performSearch q s) = Some g \<and>
            highlighted (moveEnd (performSearch q s)) \<subseteq> {fid g})"
proof -
  have inv: "highlightExclusive s"
    using assms by (simp add: highlightExclusive_run highlightExclusive_initialState)
  then have card: "card (highlighted s) \<le> 1" by (rule highlightExclusive_card)
  have reset: "highlighted (resetFeatureStyle s) = {}"
    using inv by (rule highlighted_resetFeatureStyle)
  have click: "highlighted (mapClick hits s) = {}"
    using reset by (simp add: highlighted_def featureStyle_mapClick)
  have clickMove: "highlighted (moveEnd (mapClick hits s)) \<subseteq> {fid (fst (last hits))}"
    if "hits \<noteq> []"
  proof -
    have "highlightExclusive (moveEnd (mapClick hits s))"
      using inv by (intro highlightExclusive_moveEnd highlightExclusive_mapClick)
    with that show ?thesis
      by (simp add: highlightExclusive_def selectedIds_def selectedFeature_mapClick)
  qed
  have search: "performSearch q s = requestFit searchMaxZoom g l (openPanel g (resetFeatureStyle s))"
    if "q \<noteq> []" "findFeature q s = Inr (Some (g, l))"
    using that by (simp add: performSearch_def)
  have searchHl: "highlighted (performSearch q s) = {}"
    if "q \<noteq> []" "findFeature q s = Inr (Some (g, l))"
    using reset by (simp add: search [OF that] highlighted_def)
  have searchMove: "highlighted (moveEnd (performSearch q s)) \<subseteq> {fid g}"
    if "q \<noteq> []" "findFeature q s = Inr (Some (g, l))"
  proof -
    have "highlightExclusive (moveEnd (performSearch q s))"
      using inv by (intro highlightExclusive_moveEnd highlightExclusive_performSearch)
    then show ?thesis
      by (simp add: highlightExclusive_def selectedIds_def search [OF that])
  qed
  have clickEq: "mapClick hits s =
      requestFit clickMaxZoom (fst (last hits)) (snd (last hits))
        (openPanel (fst (last hits)) (resetFeatureStyle s))"
    if "hits \<noteq> []"
    using that by (simp add: mapClick_def Let_def)
  have clickSel: "selectedFeature (mapClick hits s) = Some (fst (last hits))" if "hits \<noteq> []"
    using that by (simp add: selectedFeature_mapClick)
  have searchSel: "selectedFeature (performSearch q s) = Some g"
    if "q \<noteq> []" "findFeature q s = Inr (Some (g, l))"
    by (simp add: search [OF that])
  have resetSel: "selectedFeature (resetFeatureStyle s) = None" by simp
  have clickAll: "hits \<noteq> [] \<longrightarrow>
      mapClick hits s =
        requestFit clickMaxZoom (fst (last hits)) (snd (last hits))
          (openPanel (fst (last hits)) (resetFeatureStyle s)) \<and>
      highlighted (mapClick hits s) = {} \<and>
      selectedFeature (mapClick hits s) = Some (fst (last hits)) \<and>
      highlighted (moveEnd (mapClick hits s)) \<subseteq> {fid (fst (last hits))}"
    using clickEq click clickSel clickMove by blast
  have searchAll: "q \<noteq> [] \<and> findFeature q s = Inr (Some (g, l)) \<longrightarrow>
      performSearch q s =
        requestFit searchMaxZoom g l (openPanel g (resetFeatureStyle s)) \<and>
      highlighted (performSearch q s) = {} \<and>
      selectedFeature (performSearch q s) = Some g \<and>
      highlighted (moveEnd (performSearch q s)) \<subseteq> {fid g}"
    using search searchHl searchSel searchMove by blast
  from inv card reset resetSel clickAll searchAll show ?thesis by blast
qed

theorem highlight_exclusive_witness:
  "selectedFeature afterCable = Some cableA \<and>
   featureStyle afterCable 3 =
     Some [GlowStyle, HitAreaStyle,
           StrokeStyle (JStr ''rgba(255, 0, 0, 0.7)'') (JNum 3) (JObj 103)] \<and>
   selectedFeature afterBoth = Some dcSantiago \<and>
   featureStyle afterBoth 2 =
     Some [GlowStyle, ImageStyle SquareShape (JNum 8) (JStr ''#5DADE2'') True, OutlineStyle] \<and>
   featureStyle afterBoth 3 = None \<and>
   highlightExclusive afterBoth \<and> card (highlighted afterBoth) \<le> 1"
proof -
  have ev: "selectedFeature afterCable = Some cableA"
    "featureStyle afterCable 3 =
       Some [GlowStyle, HitAreaStyle,
             StrokeStyle (JStr ''rgba(255, 0, 0, 0.7)'') (JNum 3) (JObj 103)]"
    "selectedFeature afterBoth = Some dcSantiago"
    "featureStyle afterBoth 2 =
       Some [GlowStyle, ImageStyle SquareShape (JNum 8) (JStr ''#5DADE2'') True, OutlineStyle]"
    "featureStyle afterBoth 3 = None"
    by code_simp+
  from highlight_exclusive [OF afterBoth_def] ev show ?thesis by simp
qed

section \<open>The highlight waits for the camera\<close>

text \<open>
  The style functions of the two cable layers always return. The one of the point layer
  raises when \<^verbatim>\<open>shape\<close> is truthy and not a string, and the one of the data centre layer
  raises then too, and when the feature has no geometry or a multi-polygon.
\<close>

lemma typeIs_cases:
  "typeIs v lit =
     (if textual v then Inr (\<exists>t. v = JStr t \<and> t \<noteq> [] \<and> toLowerCase t = lit)
      else Inl TypeError)"
  by (cases v) (auto simp: typeIs_def)

lemma layerStyleFunction_raises:
  "(\<exists>e. layerStyleFunction z l f = Inl e) \<longleftrightarrow>
     (l = PointLayer \<and> \<not> textual (get f ''shape'')) \<or>
     (l = DataCenterLayer \<and>
        ((\<forall>t. getGeometry f \<noteq> JGeometry t) \<or> getGeometry f = JGeometry MultiPolygon \<or>
         \<not> textual (get f ''shape'')))"
proof (cases l)
  case CableLayer
  then show ?thesis by (simp add: cableStyle_def)
next
  case LandCableLayer
  then show ?thesis by (simp add: landCableStyle_def)
next
  case PointLayer
  then show ?thesis
    by (auto simp: pointStyle_def Let_def typeIs_cases split: bool.splits sum.splits if_splits)
next
  case DataCenterLayer
  then show ?thesis
    by (cases "getGeometry f")
       (auto simp: dataCenterStyle_def getType_def Let_def typeIs_cases interiorPointCall_def
          split: bool.splits sum.splits if_splits)
qed

text \<open>
  The continuation tests the selection of the moment only. With a selection, it calls the
  style function of its own layer (the one of the registration) on the selected feature:
  when that returns, the feature gets the glow style followed by the styles returned
  (and its sources, being changed, append their features to the store); when it raises,
  the continuation is left and no style is set.
\<close>

lemma continuation_cases:
  "(selectedFeature s = None \<longrightarrow> applyHighlight l s = s) \<and>
   (selectedFeature s = Some g \<and> layerStyleFunction (viewZoom s) l g = Inr r \<longrightarrow>
      applyHighlight l s =
        s\<lparr>allFeatures := allFeatures s @ reappended s g,
          featureStyle := (featureStyle s)(fid g \<mapsto> GlowStyle # toArray r)\<rparr>) \<and>
   (selectedFeature s = Some g \<and> layerStyleFunction (viewZoom s) l g = Inl e \<longrightarrow>
      applyHighlight l s = s\<lparr>uncaught := uncaught s @ [e]\<rparr>)"
  by (simp add: applyHighlight_eq)

text \<open>No handler but the \<^verbatim>\<open>moveend\<close> event gives a feature a style.\<close>

lemma featureStyle_reset_Some:
  "featureStyle (resetFeatureStyle s) i = Some st \<Longrightarrow> featureStyle s i = Some st"
  by (auto simp: featureStyle_resetFeatureStyle split: option.splits if_splits)

lemma featureStyle_step_cases:
  "e \<noteq> MoveEnd \<Longrightarrow>
   featureStyle (step s e) = featureStyle s \<or>
   featureStyle (step s e) = featureStyle (resetFeatureStyle s)"
proof (cases e)
  case (MapClick hits)
  then show ?thesis by (simp add: featureStyle_mapClick)
next
  case MoveEnd
  assume "e \<noteq> MoveEnd"
  with MoveEnd show ?thesis by simp
next
  case SearchButtonClick
  then show ?thesis
    using featureStyle_performSearch [of "trim (searchBoxValue s)" s]
    by (auto simp: searchButtonClick_def Let_def)
next
  case SearchBoxKeyup
  then show ?thesis by (simp add: searchBoxKeyup_def Let_def split: sum.split)
next
  case SearchBoxClick
  then show ?thesis by (simp add: searchBoxClick_def)
next
  case (SuggestionClick f)
  let ?s1 = "s\<lparr>searchBoxValue := domString (js_or (get f ''name'') (get f ''nombre''))\<rparr>"
  have r: "featureStyle (resetFeatureStyle ?s1) = featureStyle (resetFeatureStyle s)"
    by (simp add: featureStyle_resetFeatureStyle split: option.split)
  from SuggestionClick show ?thesis
    using featureStyle_performSearch [of "trim (searchBoxValue ?s1)" ?s1] r
    by (auto simp: suggestionClick_def Let_def)
next
  case ClosePanelClick
  then show ?thesis
    by (simp add: closePanelClick_def featureStyle_resetFeatureStyle split: option.split)
next
  case ToggleLayerControlsClick
  then show ?thesis by (simp add: toggleLayerControlsClick_def Let_def)
next
  case (DocumentClickPanels a b c)
  then show ?thesis
    by (simp add: documentClickPanels_def Let_def featureStyle_resetFeatureStyle
        split: option.split)
next
  case (DocumentClickSearch a)
  then show ?thesis by (simp add: documentClickSearch_def)
next
  case (SourceChange l)
  then show ?thesis by (simp add: sourceChange_def)
next
  case (SourceLoaded l src)
  then show ?thesis by simp
next
  case (BoxInput v)
  then show ?thesis by simp
next
  case (Layout w h pw)
  then show ?thesis by simp
next
  case (ViewChanged z)
  then show ?thesis by simp
qed

lemma featureStyle_step_other:
  "e \<noteq> MoveEnd \<Longrightarrow> featureStyle (step s e) i = Some st \<Longrightarrow> featureStyle s i = Some st"
  using featureStyle_step_cases [of e s] by (auto dest: featureStyle_reset_Some)

text \<open>
  A selection with a geometry registers the continuation with its layer; a selection
  without geometry registers none, and the continuations that are pending stay.
\<close>

lemma moveendOnce_openPanel [simp]: "moveendOnce (openPanel f s) = moveendOnce s"
  by (simp add: openPanel_def closeLayerControls_def)

lemma moveendOnce_requestFit:
  "moveendOnce (requestFit zoom f l s) =
     (if truthy (getGeometry f) \<and> (\<exists>z. zoom f = Inr z) then moveendOnce s @ [l]
      else moveendOnce s)"
  by (auto simp: requestFit_def split: sum.splits)

lemma moveendOnce_mapClick:
  "hits \<noteq> [] \<Longrightarrow>
   moveendOnce (mapClick hits s) =
     (if truthy (getGeometry (fst (last hits))) \<and> (\<exists>z. clickMaxZoom (fst (last hits)) = Inr z)
      then moveendOnce s @ [snd (last hits)] else moveendOnce s)"
  by (simp add: mapClick_def Let_def moveendOnce_requestFit)

lemma moveendOnce_performSearch:
  "q \<noteq> [] \<Longrightarrow> findFeature q s = Inr (Some (f, l)) \<Longrightarrow>
   moveendOnce (performSearch q s) =
     (if truthy (getGeometry f) \<and> (\<exists>z. searchMaxZoom f = Inr z) then moveendOnce s @ [l]
      else moveendOnce s)"
  by (simp add: performSearch_def moveendOnce_requestFit)

text \<open>
  Two clicks with no \<^verbatim>\<open>moveend\<close> between them: the continuation registered for the
  cable finds the data centre selected and styles it with the style function of the cable
  layer; the one registered for the data centre runs after it, so its style stays.
\<close>

lemma stale_continuation_styles_selection:
  "selectedFeature raceState = Some dcSantiago \<and>
   moveendOnce raceState = [CableLayer, DataCenterLayer] \<and>
   featureStyle raceState 2 = None \<and> featureStyle raceState 3 = None \<and>
   featureStyle (applyHighlight CableLayer raceState) 2 =
     Some [GlowStyle, HitAreaStyle, StrokeStyle (JStr ''rgba(255, 0, 0, 0.7)'') (JNum 3) JUndefined] \<and>
   featureStyle (moveEnd raceState) 2 =
     Some [GlowStyle, ImageStyle SquareShape (JNum 8) (JStr ''#5DADE2'') True] \<and>
   featureStyle (moveEnd raceState) 3 = None \<and>
   moveendOnce (moveEnd raceState) = [] \<and> uncaught (moveEnd raceState) = []"
  by code_simp

text \<open>
  C6. The data centre is clicked, and before the camera settles the search button finds
  a node that has no geometry: the node is selected and shown in the panel, no
  continuation is registered for it, and the one of the data centre is pending. At
  \<^verbatim>\<open>moveend\<close> that continuation finds a selection and calls the style function of the
  data centre layer on the node, which raises at
  \<^verbatim>\<open>feature.getGeometry().getType()\<close> (line 831): the continuation is left with the
  exception and the selected feature gets no style.
\<close>

theorem stale_continuation_raises:
  "selectedFeature staleState = Some nodeSouth \<and>
   infoPanelOpen staleState \<and>
   getGeometry nodeSouth = JUndefined \<and>
   moveendOnce staleState = [DataCenterLayer] \<and>
   uncaught staleState = [] \<and>
   layerStyleFunction (viewZoom staleState) DataCenterLayer nodeSouth = Inl TypeError \<and>
   selectedFeature (moveEnd staleState) = Some nodeSouth \<and>
   featureStyle (moveEnd staleState) (fid nodeSouth) = None \<and>
   uncaught (moveEnd staleState) = [TypeError]"
  by code_simp

end
